theory Spec2Isabelle
  imports Complex_Main
begin

section \<open>Tables of the e-commerce data preparation module\<close>

text \<open>
  The module \<open>src/data_cleaning.py\<close> works on pandas data frames. A data frame is
  modelled as the ordered list of its named columns; a column carries its dtype in its
  constructor, so a cell can only hold what the dtype can hold:
  \<^item> \<open>object\<close>: any scalar or the missing marker (text columns of a CSV file);
  \<^item> \<open>int64\<close> and \<open>bool\<close>: no missing marker;
  \<^item> \<open>float64\<close>: a number or NaN. Numbers are the rationals they denote: the
    arithmetic of the model is exact, rounding is not modelled;
  \<^item> \<open>datetime64[ns]\<close>: nanoseconds since 1970-01-01T00:00, or NaT.
  These are the dtypes that \<open>read_csv\<close> and the functions of the module produce.
  The missing marker (NaN, None, NaT) is \<open>None\<close>.
\<close>

datatype scalar = Str string | Num int | Flt rat | Boolean bool | Ts int

datatype column =
    ObjectCol "scalar option list"
  | Int64Col "int list"
  | Float64Col "rat option list"
  | BoolCol "bool list"
  | DatetimeCol "int option list"

type_synonym table = "(string \<times> column) list"

text \<open>The cells of a column, whatever its dtype.\<close>

fun col_cells :: "column \<Rightarrow> scalar option list" where
  "col_cells (ObjectCol xs) = xs"
| "col_cells (Int64Col xs) = map (\<lambda>n. Some (Num n)) xs"
| "col_cells (Float64Col xs) = map (map_option Flt) xs"
| "col_cells (BoolCol xs) = map (\<lambda>b. Some (Boolean b)) xs"
| "col_cells (DatetimeCol xs) = map (map_option Ts) xs"

definition col_len :: "column \<Rightarrow> nat" where
  "col_len c = length (col_cells c)"

text \<open>\<open>df.shape[0]\<close>; a frame without columns has no rows in the model.\<close>

fun nrows :: "table \<Rightarrow> nat" where
  "nrows [] = 0"
| "nrows ((name, c) # df) = col_len c"

text \<open>\<open>name in df.columns\<close>, \<open>df[name]\<close> is \<open>map_of df name\<close>.\<close>

definition has_column :: "table \<Rightarrow> string \<Rightarrow> bool" where
  "has_column df name = (map_of df name \<noteq> None)"

text \<open>\<open>df[name] = c\<close>: replaces the column of that name where it stands, or appends
  a new column at the end.\<close>

fun setitem :: "table \<Rightarrow> string \<Rightarrow> column \<Rightarrow> table" where
  "setitem [] name c = [(name, c)]"
| "setitem ((k, old) # df) name c =
     (if k = name then (name, c) # df else (k, old) # setitem df name c)"

text \<open>The cell of column \<open>name\<close> in row \<open>i\<close>, and the row \<open>i\<close> of a frame.\<close>

definition cell :: "table \<Rightarrow> string \<Rightarrow> nat \<Rightarrow> scalar option" where
  "cell df name i = (case map_of df name of None \<Rightarrow> None | Some c \<Rightarrow> col_cells c ! i)"

definition row :: "table \<Rightarrow> nat \<Rightarrow> (string \<times> scalar option) list" where
  "row df i = map (\<lambda>(name, c). (name, col_cells c ! i)) df"

text \<open>A data frame has distinct column names here (\<open>read_csv\<close> renames duplicates) and
  columns of one length.\<close>

definition wf_table :: "table \<Rightarrow> bool" where
  "wf_table df = (distinct (map fst df) \<and> list_all (\<lambda>(name, c). col_len c = nrows df) df)"

definition is_datetime64_dtype :: "column \<Rightarrow> bool" where
  "is_datetime64_dtype c = (case c of DatetimeCol xs \<Rightarrow> True | _ \<Rightarrow> False)"

subsection \<open>Errors and reports\<close>

text \<open>The exceptions that reach the module from pandas, and the lines it prints.\<close>

datatype read_failure = EmptyDataError | ParserError | UnicodeDecodeError
  | PermissionError | IsADirectoryError

datatype pd_error = FileNotFoundError string | ReadError read_failure | KeyError string
  | TypeError | ValueError | OverflowError | MergeError

datatype message =
    DatasetsLoaded
  | TableShape string nat nat
  | LoadFailed string
  | NotDatetimeColumn string
  | UnknownStrategy string
  | ColumnNotFound string

subsection \<open>\<open>pandas.to_datetime(series, errors='coerce')\<close>\<close>

text \<open>
  How pandas reads one element (a text, a number) as a timestamp is not code of this
  module: it is the parameter \<open>conv\<close>. \<open>conv v\<close> is \<open>Inr (Some ns)\<close> for an element that
  parses, \<open>Inr None\<close> for one that is coerced to NaT, and \<open>Inl e\<close> where pandas raises in
  spite of \<open>errors='coerce'\<close> (a boolean, in some versions). Each element is converted on
  its own. A timestamp outside the range of \<open>datetime64[ns]\<close> is coerced to NaT.
  A series that already has the dtype is returned as it is.
\<close>

type_synonym converter = "scalar \<Rightarrow> pd_error + int option"

definition in_bounds :: "int \<Rightarrow> bool" where
  "in_bounds n = (- (2 ^ 63) < n \<and> n < 2 ^ 63)"

fun convert_cell :: "converter \<Rightarrow> scalar option \<Rightarrow> pd_error + int option" where
  "convert_cell conv None = Inr None"
| "convert_cell conv (Some v) =
     (case conv v of
        Inl e \<Rightarrow> Inl e
      | Inr None \<Rightarrow> Inr None
      | Inr (Some n) \<Rightarrow> Inr (if in_bounds n then Some n else None))"

fun map_result :: "('a \<Rightarrow> 'e + 'b) \<Rightarrow> 'a list \<Rightarrow> 'e + 'b list" where
  "map_result f [] = Inr []"
| "map_result f (x # xs) =
     (case f x of
        Inl e \<Rightarrow> Inl e
      | Inr y \<Rightarrow> (case map_result f xs of Inl e \<Rightarrow> Inl e | Inr ys \<Rightarrow> Inr (y # ys)))"

definition to_datetime :: "converter \<Rightarrow> column \<Rightarrow> pd_error + column" where
  "to_datetime conv c =
     (if is_datetime64_dtype c then Inr c
      else (case map_result (convert_cell conv) (col_cells c) of
              Inl e \<Rightarrow> Inl e
            | Inr ys \<Rightarrow> Inr (DatetimeCol ys)))"

subsection \<open>\<open>convert_dates\<close>\<close>

text \<open>
  \<^verbatim>\<open>
  df_copy = df.copy()
  for col in date_columns:
      if col in df_copy.columns:
          df_copy[col] = pd.to_datetime(df_copy[col], errors='coerce')
  return df_copy
  \<close>
\<close>

fun convert_dates :: "converter \<Rightarrow> table \<Rightarrow> string list \<Rightarrow> pd_error + table" where
  "convert_dates conv df [] = Inr df"
| "convert_dates conv df (col # date_columns) =
     (case map_of df col of
        None \<Rightarrow> convert_dates conv df date_columns
      | Some c \<Rightarrow>
          (case to_datetime conv c of
             Inl e \<Rightarrow> Inl e
           | Inr c' \<Rightarrow> convert_dates conv (setitem df col c') date_columns))"

subsection \<open>Calendar fields of a timestamp\<close>

text \<open>
  The accessors \<open>.dt.year\<close>, \<open>.dt.month\<close>, \<open>.dt.day\<close>, \<open>.dt.dayofweek\<close> and
  \<open>.dt.quarter\<close> of pandas read a timestamp in the proleptic Gregorian calendar.
  \<open>civil_from_days\<close> is the date of a day number (days since 1970-01-01), and
  \<open>days_from_civil\<close> the day number of a date. Day 0 was a Thursday, and pandas counts
  the days of the week from Monday = 0, so Saturday is 5 and Sunday is 6.
\<close>

definition days_of :: "int \<Rightarrow> int" where
  "days_of ns = ns div 86400000000000"

definition civil_from_days :: "int \<Rightarrow> int \<times> int \<times> int" where
  "civil_from_days z =
     (let z1 = z + 719468;
          era = z1 div 146097;
          doe = z1 mod 146097;
          yoe = (doe - doe div 1460 + doe div 36524 - doe div 146096) div 365;
          doy = doe - (365 * yoe + yoe div 4 - yoe div 100);
          mp = (5 * doy + 2) div 153;
          d = doy - (153 * mp + 2) div 5 + 1;
          m = (if mp < 10 then mp + 3 else mp - 9);
          y = yoe + era * 400
      in (if m \<le> 2 then y + 1 else y, m, d))"

definition days_from_civil :: "int \<Rightarrow> int \<Rightarrow> int \<Rightarrow> int" where
  "days_from_civil y m d =
     (let y1 = (if m \<le> 2 then y - 1 else y);
          era = y1 div 400;
          yoe = y1 mod 400;
          doy = (153 * (if m > 2 then m - 3 else m + 9) + 2) div 5 + d - 1;
          doe = yoe * 365 + yoe div 4 - yoe div 100 + doy
      in era * 146097 + doe - 719468)"

definition dt_year :: "int \<Rightarrow> int" where
  "dt_year ns = fst (civil_from_days (days_of ns))"

definition dt_month :: "int \<Rightarrow> int" where
  "dt_month ns = fst (snd (civil_from_days (days_of ns)))"

definition dt_day :: "int \<Rightarrow> int" where
  "dt_day ns = snd (snd (civil_from_days (days_of ns)))"

definition dt_dayofweek :: "int \<Rightarrow> int" where
  "dt_dayofweek ns = (days_of ns + 3) mod 7"

definition dt_quarter :: "int \<Rightarrow> int" where
  "dt_quarter ns = (dt_month ns - 1) div 3 + 1"

text \<open>A field of a datetime series: \<open>int64\<close> when no element is NaT, else \<open>float64\<close>
  with NaN at each NaT.\<close>

definition dt_field :: "(int \<Rightarrow> int) \<Rightarrow> int option list \<Rightarrow> column" where
  "dt_field f xs =
     (case those xs of
        Some ns \<Rightarrow> Int64Col (map f ns)
      | None \<Rightarrow> Float64Col (map (map_option (\<lambda>n. of_int (f n))) xs))"

text \<open>\<open>series.isin(values)\<close> for a numeric series and integer values; NaN is in no list.
  \<open>mask.astype(int)\<close> turns True into 1 and False into 0.\<close>

definition isin :: "column \<Rightarrow> int list \<Rightarrow> bool list" where
  "isin c vs =
     map (\<lambda>x. case x of
                 Some (Num n) \<Rightarrow> n \<in> set vs
               | Some (Flt q) \<Rightarrow> q \<in> set (map of_int vs)
               | _ \<Rightarrow> False) (col_cells c)"

definition astype_int :: "bool list \<Rightarrow> column" where
  "astype_int bs = Int64Col (map (\<lambda>b. if b then 1 else 0) bs)"

subsection \<open>\<open>extract_date_features\<close>\<close>

text \<open>
  \<^verbatim>\<open>
  if date_column in df_copy.columns and pd.api.types.is_datetime64_dtype(df_copy[date_column]):
      df_copy[f'{date_column}_year'] = df_copy[date_column].dt.year
      ...
      df_copy[f'{date_column}_is_weekend'] = df_copy[date_column].dt.dayofweek.isin([5, 6]).astype(int)
  else:
      print(f"Erro: {date_column} ...")
  return df_copy
  \<close>
  Each statement reads the date column from the frame as the statements before it left
  it (\<open>add_feature\<close>); that column is a datetime column there, since the names written
  are longer than its name.
\<close>

definition add_feature ::
  "table \<Rightarrow> string \<Rightarrow> string \<Rightarrow> (int option list \<Rightarrow> column) \<Rightarrow> table" where
  "add_feature df date_column suffix f =
     (case map_of df date_column of
        Some (DatetimeCol xs) \<Rightarrow> setitem df (date_column @ suffix) (f xs)
      | _ \<Rightarrow> df)"

definition is_weekend :: "int option list \<Rightarrow> column" where
  "is_weekend xs = astype_int (isin (dt_field dt_dayofweek xs) [5, 6])"

definition extract_date_features :: "table \<Rightarrow> string \<Rightarrow> table \<times> message list" where
  "extract_date_features df date_column =
     (if has_column df date_column \<and>
         (case map_of df date_column of Some c \<Rightarrow> is_datetime64_dtype c | None \<Rightarrow> False)
      then
        (let df1 = add_feature df date_column ''_year'' (dt_field dt_year);
             df2 = add_feature df1 date_column ''_month'' (dt_field dt_month);
             df3 = add_feature df2 date_column ''_day'' (dt_field dt_day);
             df4 = add_feature df3 date_column ''_dayofweek'' (dt_field dt_dayofweek);
             df5 = add_feature df4 date_column ''_quarter'' (dt_field dt_quarter);
             df6 = add_feature df5 date_column ''_is_weekend'' is_weekend
         in (df6, []))
      else (df, [NotDatetimeColumn date_column]))"

subsection \<open>\<open>handle_missing_values\<close>\<close>

text \<open>\<open>df.dropna()\<close> keeps the rows that have no missing cell, in their order.\<close>

definition notna_all :: "table \<Rightarrow> nat \<Rightarrow> bool" where
  "notna_all df i = list_all (\<lambda>(name, c). col_cells c ! i \<noteq> None) df"

fun take_rows :: "nat list \<Rightarrow> column \<Rightarrow> column" where
  "take_rows idx (ObjectCol xs) = ObjectCol (map (nth xs) idx)"
| "take_rows idx (Int64Col xs) = Int64Col (map (nth xs) idx)"
| "take_rows idx (Float64Col xs) = Float64Col (map (nth xs) idx)"
| "take_rows idx (BoolCol xs) = BoolCol (map (nth xs) idx)"
| "take_rows idx (DatetimeCol xs) = DatetimeCol (map (nth xs) idx)"

definition dropna :: "table \<Rightarrow> table" where
  "dropna df =
     (let keep = filter (notna_all df) [0..<nrows df]
      in map (\<lambda>(name, c). (name, take_rows keep c)) df)"

text \<open>\<open>df.select_dtypes(include=[np.number]).columns\<close>: the integer and float columns
  (a boolean column is not a number for numpy).\<close>

definition is_numeric :: "column \<Rightarrow> bool" where
  "is_numeric c = (case c of Int64Col xs \<Rightarrow> True | Float64Col xs \<Rightarrow> True | _ \<Rightarrow> False)"

definition numeric_columns :: "table \<Rightarrow> string list" where
  "numeric_columns df = map fst (filter (\<lambda>(name, c). is_numeric c) df)"

text \<open>\<open>series.mean()\<close> and \<open>series.median()\<close> skip the missing values; of no value at
  all they are NaN.\<close>

fun numeric_values :: "column \<Rightarrow> rat list" where
  "numeric_values (Int64Col xs) = map of_int xs"
| "numeric_values (Float64Col xs) = concat (map (\<lambda>x. case x of None \<Rightarrow> [] | Some q \<Rightarrow> [q]) xs)"
| "numeric_values c = []"

definition series_mean :: "column \<Rightarrow> rat option" where
  "series_mean c =
     (let vs = numeric_values c
      in if vs = [] then None else Some (sum_list vs / of_nat (length vs)))"

definition series_median :: "column \<Rightarrow> rat option" where
  "series_median c =
     (let vs = sort (numeric_values c); n = length vs
      in if n = 0 then None
         else if odd n then Some (vs ! (n div 2))
         else Some ((vs ! (n div 2 - 1) + vs ! (n div 2)) / 2))"

text \<open>\<open>series.fillna(value)\<close> for a numeric series and a float value; filling with NaN
  changes nothing, and an integer series has nothing to fill.\<close>

fun fillna :: "column \<Rightarrow> rat option \<Rightarrow> column" where
  "fillna c None = c"
| "fillna (Float64Col xs) (Some q) =
     Float64Col (map (\<lambda>x. case x of None \<Rightarrow> Some q | Some y \<Rightarrow> Some y) xs)"
| "fillna c (Some q) = c"

text \<open>
  \<^verbatim>\<open>
  for col in df_copy.select_dtypes(include=[np.number]).columns:
      df_copy[col] = df_copy[col].fillna(df_copy[col].mean())
  \<close>
\<close>

definition fill_numeric :: "(column \<Rightarrow> rat option) \<Rightarrow> table \<Rightarrow> table" where
  "fill_numeric stat df =
     fold (\<lambda>col d. case map_of d col of
                      None \<Rightarrow> d
                    | Some c \<Rightarrow> setitem d col (fillna c (stat c)))
          (numeric_columns df) df"

text \<open>\<open>df.fillna(0)\<close>: the integer 0 goes into every missing cell. A float column takes
  it as 0.0; a datetime column cannot hold it and becomes an object column when it has a
  NaT to fill. (Whether pandas afterwards infers a narrower dtype for an object column is
  not modelled; the cells are the same.)\<close>

fun fillna_zero :: "column \<Rightarrow> column" where
  "fillna_zero (ObjectCol xs) =
     ObjectCol (map (\<lambda>x. case x of None \<Rightarrow> Some (Num 0) | Some v \<Rightarrow> Some v) xs)"
| "fillna_zero (Float64Col xs) =
     Float64Col (map (\<lambda>x. case x of None \<Rightarrow> Some 0 | Some q \<Rightarrow> Some q) xs)"
| "fillna_zero (DatetimeCol xs) =
     (if None \<in> set xs
      then ObjectCol (map (\<lambda>x. case x of None \<Rightarrow> Some (Num 0) | Some n \<Rightarrow> Some (Ts n)) xs)
      else DatetimeCol xs)"
| "fillna_zero (Int64Col xs) = Int64Col xs"
| "fillna_zero (BoolCol xs) = BoolCol xs"

definition handle_missing_values :: "table \<Rightarrow> string \<Rightarrow> table \<times> message list" where
  "handle_missing_values df strategy =
     (if strategy = ''drop'' then (dropna df, [])
      else if strategy = ''fill_mean'' then (fill_numeric series_mean df, [])
      else if strategy = ''fill_median'' then (fill_numeric series_median df, [])
      else if strategy = ''fill_zero'' then (map (\<lambda>(name, c). (name, fillna_zero c)) df, [])
      else (dropna df, [UnknownStrategy strategy]))"

subsection \<open>\<open>pandas.merge(left, right, on=key, how=...)\<close>\<close>

text \<open>
  The join pairs every row of \<open>left\<close> with the rows of \<open>right\<close> that have the same key,
  in the order of \<open>left\<close>. Two missing keys are the same key. Keys are compared as Python
  compares them: \<open>1 == 1.0 == True\<close>. An inner join drops a left row without a partner; a
  left join keeps it once and leaves the columns of \<open>right\<close> missing, so an integer column
  becomes a float column and a boolean column an object column there.
  A column name other than the key that both frames have gets the suffix \<open>_x\<close> on the
  left and \<open>_y\<close> on the right. pandas raises KeyError when a frame has no column \<open>key\<close>.
  The key columns have one dtype, or one is an integer and the other a float column
  (pandas compares those as numbers and keeps the left keys in the result). For other
  pairs of dtypes, and for a result that would have a column name twice, the model
  returns the error pandas raises in most of those cases.
\<close>

datatype how = InnerJoin | LeftJoin

datatype dtype = ObjectT | Int64T | Float64T | BoolT | Datetime64T

fun dtype_of :: "column \<Rightarrow> dtype" where
  "dtype_of (ObjectCol xs) = ObjectT"
| "dtype_of (Int64Col xs) = Int64T"
| "dtype_of (Float64Col xs) = Float64T"
| "dtype_of (BoolCol xs) = BoolT"
| "dtype_of (DatetimeCol xs) = Datetime64T"

fun key_of :: "scalar option \<Rightarrow> scalar option" where
  "key_of (Some (Num n)) = Some (Flt (of_int n))"
| "key_of (Some (Boolean b)) = Some (Flt (if b then 1 else 0))"
| "key_of x = x"

definition keys_compatible :: "column \<Rightarrow> column \<Rightarrow> bool" where
  "keys_compatible lk rk =
     (dtype_of lk = dtype_of rk
      \<or> (dtype_of lk = Int64T \<and> dtype_of rk = Float64T)
      \<or> (dtype_of lk = Float64T \<and> dtype_of rk = Int64T))"

definition matches :: "scalar option list \<Rightarrow> scalar option \<Rightarrow> nat list" where
  "matches rk k = filter (\<lambda>j. key_of (rk ! j) = key_of k) [0..<length rk]"

definition join_row :: "how \<Rightarrow> scalar option list \<Rightarrow> scalar option \<Rightarrow> nat \<Rightarrow> (nat \<times> nat option) list" where
  "join_row h rk k i =
     (let ms = matches rk k
      in if ms = [] then (case h of InnerJoin \<Rightarrow> [] | LeftJoin \<Rightarrow> [(i, None)])
         else map (\<lambda>j. (i, Some j)) ms)"

definition join_indexer ::
  "how \<Rightarrow> scalar option list \<Rightarrow> scalar option list \<Rightarrow> (nat \<times> nat option) list" where
  "join_indexer h lk rk = concat (map (\<lambda>i. join_row h rk (lk ! i) i) [0..<length lk])"

fun take_opt :: "nat option list \<Rightarrow> column \<Rightarrow> column" where
  "take_opt idx (ObjectCol xs) =
     ObjectCol (map (\<lambda>j. case j of None \<Rightarrow> None | Some j \<Rightarrow> xs ! j) idx)"
| "take_opt idx (Float64Col xs) =
     Float64Col (map (\<lambda>j. case j of None \<Rightarrow> None | Some j \<Rightarrow> xs ! j) idx)"
| "take_opt idx (DatetimeCol xs) =
     DatetimeCol (map (\<lambda>j. case j of None \<Rightarrow> None | Some j \<Rightarrow> xs ! j) idx)"
| "take_opt idx (Int64Col xs) =
     (case those idx of
        Some js \<Rightarrow> Int64Col (map (nth xs) js)
      | None \<Rightarrow> Float64Col (map (map_option (\<lambda>j. of_int (xs ! j))) idx))"
| "take_opt idx (BoolCol xs) =
     (case those idx of
        Some js \<Rightarrow> BoolCol (map (nth xs) js)
      | None \<Rightarrow> ObjectCol (map (map_option (\<lambda>j. Boolean (xs ! j))) idx))"

definition pd_merge :: "how \<Rightarrow> table \<Rightarrow> table \<Rightarrow> string \<Rightarrow> pd_error + table" where
  "pd_merge h left right key =
     (case map_of left key of
        None \<Rightarrow> Inl (KeyError key)
      | Some lk \<Rightarrow>
          (case map_of right key of
             None \<Rightarrow> Inl (KeyError key)
           | Some rk \<Rightarrow>
               if \<not> keys_compatible lk rk then Inl ValueError
               else
                 (let idx = join_indexer h (col_cells lk) (col_cells rk);
                      lcols = map (\<lambda>(name, c).
                                (if name \<noteq> key \<and> name \<in> set (map fst right)
                                 then name @ ''_x'' else name,
                                 take_rows (map fst idx) c)) left;
                      rcols = map (\<lambda>(name, c).
                                (if name \<in> set (map fst left) then name @ ''_y'' else name,
                                 take_opt (map snd idx) c))
                                (filter (\<lambda>(name, c). name \<noteq> key) right);
                      result = lcols @ rcols
                  in if distinct (map fst result) then Inr result else Inl MergeError)))"

subsection \<open>\<open>merge_order_data\<close>\<close>

text \<open>
  \<^verbatim>\<open>
  merged_data = pd.merge(orders, order_items, on='order_id', how='inner')
  if products is not None:
      merged_data = pd.merge(merged_data, products, on='product_id', how='left')
  if customers is not None:
      merged_data = pd.merge(merged_data, customers, on='customer_id', how='left')
  return merged_data
  \<close>
\<close>

definition merge_order_data ::
  "table \<Rightarrow> table \<Rightarrow> table option \<Rightarrow> table option \<Rightarrow> pd_error + table" where
  "merge_order_data orders order_items products customers =
     (case pd_merge InnerJoin orders order_items ''order_id'' of
        Inl e \<Rightarrow> Inl e
      | Inr merged1 \<Rightarrow>
          (case (case products of
                   None \<Rightarrow> Inr merged1
                 | Some p \<Rightarrow> pd_merge LeftJoin merged1 p ''product_id'') of
             Inl e \<Rightarrow> Inl e
           | Inr merged2 \<Rightarrow>
               (case customers of
                  None \<Rightarrow> Inr merged2
                | Some c \<Rightarrow> pd_merge LeftJoin merged2 c ''customer_id'')))"

subsection \<open>\<open>calculate_delivery_time\<close>\<close>

definition date_cols :: "string list" where
  "date_cols = [''order_purchase_timestamp'', ''order_delivered_customer_date'',
                ''order_estimated_delivery_date'']"

text \<open>
  \<^verbatim>\<open>
  for col in date_cols:
      if col not in df.columns:
          print(f"Coluna {col} ...")
          return df
      if not pd.api.types.is_datetime64_dtype(df[col]):
          df[col] = pd.to_datetime(df[col], errors='coerce')
  \<close>
  The loop returns the frame as it is by then, with the name of the missing column, or
  runs to its end (\<open>None\<close>).
\<close>

fun check_date_cols ::
  "converter \<Rightarrow> table \<Rightarrow> string list \<Rightarrow> pd_error + (table \<times> string option)" where
  "check_date_cols conv df [] = Inr (df, None)"
| "check_date_cols conv df (col # cols) =
     (case map_of df col of
        None \<Rightarrow> Inr (df, Some col)
      | Some c \<Rightarrow>
          if \<not> is_datetime64_dtype c
          then (case to_datetime conv c of
                  Inl e \<Rightarrow> Inl e
                | Inr c' \<Rightarrow> check_date_cols conv (setitem df col c') cols)
          else check_date_cols conv df cols)"

text \<open>Running on after a step that may raise.\<close>

definition and_then :: "'e + 'a \<Rightarrow> ('a \<Rightarrow> 'e + 'b) \<Rightarrow> 'e + 'b" where
  "and_then r f = (case r of Inl e \<Rightarrow> Inl e | Inr x \<Rightarrow> f x)"

text \<open>\<open>df[name]\<close> read as a datetime series, or as a float series.\<close>

definition datetime_values :: "table \<Rightarrow> string \<Rightarrow> pd_error + int option list" where
  "datetime_values df name =
     (case map_of df name of
        None \<Rightarrow> Inl (KeyError name)
      | Some (DatetimeCol xs) \<Rightarrow> Inr xs
      | Some c \<Rightarrow> Inl TypeError)"

definition float_values :: "table \<Rightarrow> string \<Rightarrow> pd_error + rat option list" where
  "float_values df name =
     (case map_of df name of
        None \<Rightarrow> Inl (KeyError name)
      | Some (Float64Col xs) \<Rightarrow> Inr xs
      | Some c \<Rightarrow> Inl TypeError)"

text \<open>The difference of two datetime series is a series of durations in nanoseconds;
  NaT on either side gives NaT, and pandas raises when a difference does not fit into 64
  bits. \<open>.dt.total_seconds() / (24 * 3600)\<close> turns it into days.\<close>

fun checked_sub :: "int option \<times> int option \<Rightarrow> pd_error + int option" where
  "checked_sub (Some a, Some b) =
     (if in_bounds (a - b) then Inr (Some (a - b)) else Inl OverflowError)"
| "checked_sub (a, b) = Inr None"

definition datetime_sub :: "int option list \<Rightarrow> int option list \<Rightarrow> pd_error + int option list" where
  "datetime_sub xs ys = map_result checked_sub (zip xs ys)"

definition total_seconds :: "int option list \<Rightarrow> rat option list" where
  "total_seconds xs = map (map_option (\<lambda>n. of_int n / 1000000000)) xs"

definition div_scalar :: "rat option list \<Rightarrow> rat \<Rightarrow> rat option list" where
  "div_scalar xs k = map (map_option (\<lambda>q. q / k)) xs"

fun sub_cell :: "rat option \<times> rat option \<Rightarrow> rat option" where
  "sub_cell (Some a, Some b) = Some (a - b)"
| "sub_cell (a, b) = None"

definition float_sub :: "rat option list \<Rightarrow> rat option list \<Rightarrow> rat option list" where
  "float_sub xs ys = map sub_cell (zip xs ys)"

text \<open>\<open>series <= k\<close>: a comparison with NaN is False.\<close>

definition le_scalar :: "rat option list \<Rightarrow> rat \<Rightarrow> bool list" where
  "le_scalar xs k = map (\<lambda>x. case x of None \<Rightarrow> False | Some q \<Rightarrow> q \<le> k) xs"

definition delivery_days :: "table \<Rightarrow> string \<Rightarrow> string \<Rightarrow> pd_error + column" where
  "delivery_days df later earlier =
     and_then (datetime_values df later) (\<lambda>a.
     and_then (datetime_values df earlier) (\<lambda>b.
     and_then (datetime_sub a b) (\<lambda>td.
     Inr (Float64Col (div_scalar (total_seconds td) (24 * 3600))))))"

definition calculate_delivery_time ::
  "converter \<Rightarrow> table \<Rightarrow> pd_error + (table \<times> message list)" where
  "calculate_delivery_time conv orders =
     (case check_date_cols conv orders date_cols of
        Inl e \<Rightarrow> Inl e
      | Inr (df, Some col) \<Rightarrow> Inr (df, [ColumnNotFound col])
      | Inr (df, None) \<Rightarrow>
          and_then (delivery_days df ''order_delivered_customer_date''
                      ''order_purchase_timestamp'') (\<lambda>actual.
          let df1 = setitem df ''delivery_time_days'' actual in
          and_then (delivery_days df1 ''order_estimated_delivery_date''
                      ''order_purchase_timestamp'') (\<lambda>estimated.
          let df2 = setitem df1 ''estimated_delivery_time_days'' estimated in
          and_then (float_values df2 ''delivery_time_days'') (\<lambda>a.
          and_then (float_values df2 ''estimated_delivery_time_days'') (\<lambda>b.
          let df3 = setitem df2 ''delivery_time_difference'' (Float64Col (float_sub a b)) in
          and_then (float_values df3 ''delivery_time_difference'') (\<lambda>d.
          Inr (setitem df3 ''delivered_on_time'' (BoolCol (le_scalar d 0)), [])))))))"

subsection \<open>\<open>load_datasets\<close>\<close>

text \<open>
  The directory is a map from paths to files. What \<open>read_csv\<close> makes of the bytes of a
  file is not code of this module, so a file is given by what \<open>read_csv\<close> returns for it:
  a table, or the exception it raises on a file that is there but cannot be read
  (an empty file, a directory, broken encoding, ...).
\<close>

datatype csv_file = CsvFile table | Unreadable read_failure

type_synonym filesystem = "string \<Rightarrow> csv_file option"

definition read_csv :: "filesystem \<Rightarrow> string \<Rightarrow> pd_error + table" where
  "read_csv fs path =
     (case fs path of
        None \<Rightarrow> Inl (FileNotFoundError path)
      | Some (CsvFile t) \<Rightarrow> Inr t
      | Some (Unreadable e) \<Rightarrow> Inl (ReadError e))"

text \<open>The dictionary literal reads the five files in the order written; the first
  exception ends it.\<close>

definition read_all :: "filesystem \<Rightarrow> string \<Rightarrow> pd_error + (string \<times> table) list" where
  "read_all fs base_path =
     and_then (read_csv fs (base_path @ ''olist_orders_dataset.csv'')) (\<lambda>orders.
     and_then (read_csv fs (base_path @ ''olist_order_items_dataset.csv'')) (\<lambda>order_items.
     and_then (read_csv fs (base_path @ ''olist_products_dataset.csv'')) (\<lambda>products.
     and_then (read_csv fs (base_path @ ''olist_customers_dataset.csv'')) (\<lambda>customers.
     and_then (read_csv fs (base_path @ ''olist_sellers_dataset.csv'')) (\<lambda>sellers.
     Inr [(''orders'', orders), (''order_items'', order_items), (''products'', products),
          (''customers'', customers), (''sellers'', sellers)])))))"

text \<open>
  \<^verbatim>\<open>
  try:
      datasets = {...}
      print("Datasets carregados com sucesso!")
      for name, df in datasets.items():
          print(f"{name}: {df.shape[0]} linhas, {df.shape[1]} colunas")
      return datasets
  except FileNotFoundError as e:
      print(f"Erro ao carregar datasets: {e}")
      return None
  \<close>
  Only FileNotFoundError is caught; any other exception leaves the function.
\<close>

definition load_datasets ::
  "filesystem \<Rightarrow> string \<Rightarrow> pd_error + ((string \<times> table) list option \<times> message list)" where
  "load_datasets fs base_path =
     (case read_all fs base_path of
        Inr datasets \<Rightarrow>
          Inr (Some datasets,
               DatasetsLoaded # map (\<lambda>(name, df). TableShape name (nrows df) (length df)) datasets)
      | Inl (FileNotFoundError path) \<Rightarrow> Inr (None, [LoadFailed path])
      | Inl e \<Rightarrow> Inl e)"

definition required_files :: "string list" where
  "required_files = [''olist_orders_dataset.csv'', ''olist_order_items_dataset.csv'',
     ''olist_products_dataset.csv'', ''olist_customers_dataset.csv'',
     ''olist_sellers_dataset.csv'']"

subsection \<open>A converter for the worked examples\<close>

text \<open>
  The theorems below hold for every converter. The examples use this one: it reads the
  text format of the dataset, \<open>YYYY-MM-DD HH:MM:SS\<close>, and takes an integer as nanoseconds
  since the epoch; a boolean raises, and everything else is coerced to NaT.
\<close>

definition digit_of :: "char \<Rightarrow> int option" where
  "digit_of c = map_of (zip ''0123456789'' [0, 1, 2, 3, 4, 5, 6, 7, 8, 9]) c"

fun number_of :: "string \<Rightarrow> int \<Rightarrow> int option" where
  "number_of [] acc = Some acc"
| "number_of (c # cs) acc =
     (case digit_of c of None \<Rightarrow> None | Some d \<Rightarrow> number_of cs (10 * acc + d))"

definition days_in_month :: "int \<Rightarrow> int \<Rightarrow> int" where
  "days_in_month y m =
     (if m = 2 then (if y mod 4 = 0 \<and> (y mod 100 \<noteq> 0 \<or> y mod 400 = 0) then 29 else 28)
      else if m = 4 \<or> m = 6 \<or> m = 9 \<or> m = 11 then 30 else 31)"

definition parse_timestamp :: "string \<Rightarrow> int option" where
  "parse_timestamp s =
     (case s of
        [y1, y2, y3, y4, s1, m1, m2, s2, d1, d2, s3, h1, h2, s4, n1, n2, s5, c1, c2] \<Rightarrow>
          (case (number_of [y1, y2, y3, y4] 0, number_of [m1, m2] 0, number_of [d1, d2] 0,
                 number_of [h1, h2] 0, number_of [n1, n2] 0, number_of [c1, c2] 0) of
             (Some y, Some m, Some d, Some h, Some n, Some c) \<Rightarrow>
               if s1 = CHR ''-'' \<and> s2 = CHR ''-'' \<and> s3 = CHR '' '' \<and> s4 = CHR '':'' \<and>
                  s5 = CHR '':'' \<and> 1 \<le> m \<and> m \<le> 12 \<and> 1 \<le> d \<and> d \<le> days_in_month y m \<and>
                  h < 24 \<and> n < 60 \<and> c < 60
               then Some (((days_from_civil y m d * 24 + h) * 60 + n) * 60 * 1000000000
                          + c * 1000000000)
               else None
           | _ \<Rightarrow> None)
      | _ \<Rightarrow> None)"

definition sample_conv :: converter where
  "sample_conv v =
     (case v of
        Str s \<Rightarrow> Inr (parse_timestamp s)
      | Num n \<Rightarrow> Inr (Some n)
      | Ts n \<Rightarrow> Inr (Some n)
      | Boolean b \<Rightarrow> Inl TypeError
      | Flt q \<Rightarrow> Inr None)"

subsection \<open>Notions the statements use\<close>

text \<open>The zero that \<open>fillna(0)\<close> leaves in a cell of a column: 0.0 in a float column,
  the integer 0 elsewhere.\<close>

definition literal_zero :: "column \<Rightarrow> scalar" where
  "literal_zero c = (case c of Float64Col xs \<Rightarrow> Flt 0 | _ \<Rightarrow> Num 0)"

definition fill_cell :: "scalar \<Rightarrow> scalar option \<Rightarrow> scalar option" where
  "fill_cell z x = (case x of None \<Rightarrow> Some z | Some v \<Rightarrow> Some v)"

text \<open>A column without a missing value, and a column of missing values only.\<close>

definition no_missing :: "column \<Rightarrow> bool" where
  "no_missing c = list_all (\<lambda>x. x \<noteq> None) (col_cells c)"

definition all_missing :: "column \<Rightarrow> bool" where
  "all_missing c = list_all (\<lambda>x. x = None) (col_cells c)"

text \<open>The days from one timestamp to another, as the calculator computes them for one
  row: missing when either timestamp is.\<close>

fun days_cell :: "int option \<times> int option \<Rightarrow> rat option" where
  "days_cell (Some a, Some b) = Some (of_int (a - b) / 1000000000 / 86400)"
| "days_cell (a, b) = None"

text \<open>An optional table has at most one row for each value of a key column (two
  missing keys count as the same value); a table that is not supplied, or has no such
  column, has nothing to repeat.\<close>

fun unique_key :: "table option \<Rightarrow> string \<Rightarrow> bool" where
  "unique_key None key = True"
| "unique_key (Some t) key =
     (case map_of t key of
        None \<Rightarrow> True
      | Some c \<Rightarrow> distinct (map key_of (col_cells c)))"

text \<open>The names of the six feature columns of a date column, a numeric cell read as an
  integer, and a run of column assignments.\<close>

definition feature_names :: "string \<Rightarrow> string list" where
  "feature_names d = [d @ ''_year'', d @ ''_month'', d @ ''_day'', d @ ''_dayofweek'',
                      d @ ''_quarter'', d @ ''_is_weekend'']"

fun cell_int :: "scalar option \<Rightarrow> int option" where
  "cell_int (Some (Num n)) = Some n"
| "cell_int (Some (Flt q)) = (if q = of_int (floor q) then Some (floor q) else None)"
| "cell_int x = None"

fun setitems :: "table \<Rightarrow> (string \<times> column) list \<Rightarrow> table" where
  "setitems df [] = df"
| "setitems df ((name, c) # rest) = setitems (setitem df name c) rest"

text \<open>Row counts of joins, stated on the key columns: the number of rows of \<open>right\<close>
  whose key is \<open>k\<close>; the rows of an inner join (every pair of rows with the same key);
  the rows of a left join with an optional table (a left row once for every partner, and
  once if it has none; no join if the table is not supplied); and whether some left row
  has two or more partners.\<close>

definition row_matches :: "table \<Rightarrow> string \<Rightarrow> scalar option \<Rightarrow> nat" where
  "row_matches right key k =
     (case map_of right key of
        None \<Rightarrow> 0
      | Some rk \<Rightarrow> length (matches (col_cells rk) k))"

definition inner_join_count :: "table \<Rightarrow> table \<Rightarrow> string \<Rightarrow> nat" where
  "inner_join_count left right key =
     (case map_of left key of
        None \<Rightarrow> 0
      | Some lk \<Rightarrow> sum_list (map (row_matches right key) (col_cells lk)))"

fun left_join_count :: "table \<Rightarrow> table option \<Rightarrow> string \<Rightarrow> nat" where
  "left_join_count left None key = nrows left"
| "left_join_count left (Some right) key =
     (case map_of left key of
        None \<Rightarrow> 0
      | Some lk \<Rightarrow> sum_list (map (\<lambda>k. max 1 (row_matches right key k)) (col_cells lk)))"

fun repeated_match :: "table \<Rightarrow> table option \<Rightarrow> string \<Rightarrow> bool" where
  "repeated_match left None key = False"
| "repeated_match left (Some right) key =
     (case map_of left key of
        None \<Rightarrow> False
      | Some lk \<Rightarrow> list_ex (\<lambda>k. 2 \<le> row_matches right key k) (col_cells lk))"

section \<open>Facts about frames\<close>

lemma map_of_setitem:
  "map_of (setitem df name c) k = (if k = name then Some c else map_of df k)"
  by (induction df) auto

lemma setitem_same: "map_of df name = Some c \<Longrightarrow> setitem df name c = df"
  by (induction df) (auto split: if_splits)

lemma names_setitem:
  "map fst (setitem df name c) =
     (if name \<in> set (map fst df) then map fst df else map fst df @ [name])"
  by (induction df) force+

lemma to_datetime_is_datetime:
  "to_datetime conv c = Inr c' \<Longrightarrow> is_datetime64_dtype c'"
  by (auto simp: to_datetime_def is_datetime64_dtype_def split: if_splits sum.splits)

lemma to_datetime_idem: "is_datetime64_dtype c \<Longrightarrow> to_datetime conv c = Inr c"
  by (simp add: to_datetime_def)

lemma convert_dates_keeps_datetime:
  "convert_dates conv df cols = Inr df' \<Longrightarrow> map_of df k = Some c \<Longrightarrow>
   is_datetime64_dtype c \<Longrightarrow> map_of df' k = Some c"
proof (induction cols arbitrary: df)
  case Nil
  then show ?case by simp
next
  case (Cons col cols)
  show ?case
  proof (cases "map_of df col")
    case None
    with Cons show ?thesis by simp
  next
    case (Some c0)
    with Cons.prems obtain c1 where c1: "to_datetime conv c0 = Inr c1"
      and rest: "convert_dates conv (setitem df col c1) cols = Inr df'"
      by (auto split: sum.splits)
    have "map_of (setitem df col c1) k = Some c"
    proof (cases "k = col")
      case True
      with Some Cons.prems have "c0 = c" by simp
      with c1 Cons.prems have "c1 = c" by (simp add: to_datetime_idem)
      with True show ?thesis by (simp add: map_of_setitem)
    next
      case False
      with Cons.prems show ?thesis by (simp add: map_of_setitem)
    qed
    with Cons.IH [OF rest] Cons.prems show ?thesis by simp
  qed
qed

lemma convert_dates_all_datetime:
  "convert_dates conv df cols = Inr df' \<Longrightarrow> k \<in> set cols \<Longrightarrow> map_of df' k = Some c \<Longrightarrow>
   is_datetime64_dtype c"
proof (induction cols arbitrary: df)
  case Nil
  then show ?case by simp
next
  case (Cons col cols)
  show ?case
  proof (cases "map_of df col")
    case None
    note absent = None
    show ?thesis
    proof (cases "k \<in> set cols")
      case True
      with Cons absent show ?thesis by simp
    next
      case False
      with Cons.prems have k: "k = col" by simp
      from Cons.prems absent have rest: "convert_dates conv df cols = Inr df'" by simp
      have "map_of df' col = None" using rest absent False k
      proof (induction cols arbitrary: df)
        case Nil
        then show ?case by simp
      next
        case (Cons a as)
        then show ?case
          by (cases "map_of df a") (auto split: sum.splits simp: map_of_setitem)
      qed
      with Cons.prems k show ?thesis by simp
    qed
  next
    case (Some c0)
    with Cons.prems obtain c1 where c1: "to_datetime conv c0 = Inr c1"
      and rest: "convert_dates conv (setitem df col c1) cols = Inr df'"
      by (auto split: sum.splits)
    show ?thesis
    proof (cases "k \<in> set cols")
      case True
      with Cons.IH [OF rest] Cons.prems show ?thesis by simp
    next
      case False
      with Cons.prems have k: "k = col" by simp
      have "map_of (setitem df col c1) col = Some c1" by (simp add: map_of_setitem)
      from convert_dates_keeps_datetime [OF rest this to_datetime_is_datetime [OF c1]]
      have "map_of df' col = Some c1" .
      with Cons.prems k to_datetime_is_datetime [OF c1] show ?thesis by simp
    qed
  qed
qed

lemma convert_dates_fixpoint:
  "\<forall>k\<in>set cols. \<forall>c. map_of df k = Some c \<longrightarrow> is_datetime64_dtype c \<Longrightarrow>
   convert_dates conv df cols = Inr df"
proof (induction cols)
  case Nil
  then show ?case by simp
next
  case (Cons col cols)
  have rest: "convert_dates conv df cols = Inr df"
    using Cons.prems by (intro Cons.IH) simp
  show ?case
  proof (cases "map_of df col")
    case None
    with rest show ?thesis by simp
  next
    case (Some c0)
    with Cons.prems have "is_datetime64_dtype c0" by simp
    then have "to_datetime conv c0 = Inr c0" by (rule to_datetime_idem)
    with Some rest show ?thesis by (simp add: setitem_same)
  qed
qed

section \<open>Date normalization\<close>

text \<open>
  Claim C9. Date normalization is idempotent: when \<open>convert_dates\<close> returns a frame for
  a frame \<open>df\<close> and a list of column names, running it again on that result with the same
  list returns the result unchanged. (Every listed column that exists has the datetime
  dtype after the first run, and \<open>to_datetime\<close> returns such a column as it is.)
\<close>

theorem convert_dates_idempotent:
  assumes "convert_dates conv df cols = Inr df1"
  shows "convert_dates conv df1 cols = Inr df1"
proof (rule convert_dates_fixpoint)
  show "\<forall>k\<in>set cols. \<forall>c. map_of df1 k = Some c \<longrightarrow> is_datetime64_dtype c"
    using convert_dates_all_datetime [OF assms] by blast
qed

text \<open>The witness: a text column with a date, a text that is no date and a missing
  value is normalized, a column that is not listed is left alone, a listed name that is
  no column is skipped; the second run changes nothing.\<close>

theorem convert_dates_idempotent_witness:
  "convert_dates sample_conv
     [(''order_id'', ObjectCol [Some (Str ''a1''), Some (Str ''a2''), Some (Str ''a3'')]),
      (''order_purchase_timestamp'',
         ObjectCol [Some (Str ''2022-01-01 00:00:00''), Some (Str ''soon''), None])]
     [''order_purchase_timestamp'', ''order_approved_at'']
   = Inr [(''order_id'', ObjectCol [Some (Str ''a1''), Some (Str ''a2''), Some (Str ''a3'')]),
          (''order_purchase_timestamp'', DatetimeCol [Some 1640995200000000000, None, None])]
   \<and> convert_dates sample_conv
     [(''order_id'', ObjectCol [Some (Str ''a1''), Some (Str ''a2''), Some (Str ''a3'')]),
      (''order_purchase_timestamp'', DatetimeCol [Some 1640995200000000000, None, None])]
     [''order_purchase_timestamp'', ''order_approved_at'']
   = Inr [(''order_id'', ObjectCol [Some (Str ''a1''), Some (Str ''a2''), Some (Str ''a3'')]),
          (''order_purchase_timestamp'', DatetimeCol [Some 1640995200000000000, None, None])]"
proof -
  have first: "convert_dates sample_conv
     [(''order_id'', ObjectCol [Some (Str ''a1''), Some (Str ''a2''), Some (Str ''a3'')]),
      (''order_purchase_timestamp'',
         ObjectCol [Some (Str ''2022-01-01 00:00:00''), Some (Str ''soon''), None])]
     [''order_purchase_timestamp'', ''order_approved_at'']
   = Inr [(''order_id'', ObjectCol [Some (Str ''a1''), Some (Str ''a2''), Some (Str ''a3'')]),
          (''order_purchase_timestamp'', DatetimeCol [Some 1640995200000000000, None, None])]"
    by code_simp
  from first convert_dates_idempotent [OF first] show ?thesis by (rule conjI)
qed

section \<open>Missing values\<close>

lemma cells_fillna_zero:
  "col_cells (fillna_zero c) = map (fill_cell (literal_zero c)) (col_cells c)"
proof (cases c)
  case (DatetimeCol xs)
  show ?thesis
  proof (cases "None \<in> set xs")
    case True
    with DatetimeCol show ?thesis
      by (auto simp: literal_zero_def fill_cell_def split: option.splits)
  next
    case False
    have "fill_cell (Num 0) (map_option Ts x) = map_option Ts x" if "x \<in> set xs" for x
    proof (cases x)
      case None
      with that False show ?thesis by simp
    next
      case (Some n)
      then show ?thesis by (simp add: fill_cell_def)
    qed
    then have "map (fill_cell (Num 0)) (map (map_option Ts) xs) = map (map_option Ts) xs"
      by (simp add: map_idI)
    with False DatetimeCol show ?thesis by (simp add: literal_zero_def)
  qed
qed (auto simp: literal_zero_def fill_cell_def split: option.splits)

lemma no_missing_fillna_zero: "no_missing (fillna_zero c)"
  by (simp add: no_missing_def cells_fillna_zero list_all_iff fill_cell_def split: option.splits)

text \<open>
  Claim C5. With the strategy \<open>fill_zero\<close> the handler prints nothing and returns a frame
  with the same column names in which no column has a missing value: every missing cell
  holds the literal zero (0.0 in a float column, the integer 0 in any other column,
  whatever the column held), and every other cell is as it was.
\<close>

theorem fill_zero_leaves_no_missing:
  "\<exists>df'. handle_missing_values df ''fill_zero'' = (df', [])
     \<and> map fst df' = map fst df
     \<and> (\<forall>(name, c) \<in> set df'. no_missing c)
     \<and> (\<forall>name c. map_of df name = Some c \<longrightarrow>
          (\<exists>c'. map_of df' name = Some c'
             \<and> col_cells c' = map (fill_cell (literal_zero c)) (col_cells c)))"
proof -
  let ?df' = "map (\<lambda>(name, c). (name, fillna_zero c)) df"
  have "handle_missing_values df ''fill_zero'' = (?df', [])"
    by (simp add: handle_missing_values_def)
  moreover have "map fst ?df' = map fst df"
    by (induction df) auto
  moreover have "\<forall>(name, c) \<in> set ?df'. no_missing c"
    by (auto simp: no_missing_fillna_zero)
  moreover have "\<forall>name c. map_of df name = Some c \<longrightarrow>
          (\<exists>c'. map_of ?df' name = Some c'
             \<and> col_cells c' = map (fill_cell (literal_zero c)) (col_cells c))"
    by (simp add: map_of_map cells_fillna_zero)
  ultimately show ?thesis by blast
qed

theorem fill_zero_leaves_no_missing_witness:
  "handle_missing_values
     [(''city'', ObjectCol [Some (Str ''sao paulo''), None]),
      (''price'', Float64Col [None, Some 10]),
      (''shipped'', DatetimeCol [Some 1640995200000000000, None])] ''fill_zero''
   = ([(''city'', ObjectCol [Some (Str ''sao paulo''), Some (Num 0)]),
       (''price'', Float64Col [Some 0, Some 10]),
       (''shipped'', ObjectCol [Some (Ts 1640995200000000000), Some (Num 0)])], [])
   \<and> no_missing (ObjectCol [Some (Str ''sao paulo''), Some (Num 0)])
   \<and> no_missing (Float64Col [Some 0, Some 10])
   \<and> no_missing (ObjectCol [Some (Ts 1640995200000000000), Some (Num 0)])"
proof -
  have run: "handle_missing_values
     [(''city'', ObjectCol [Some (Str ''sao paulo''), None]),
      (''price'', Float64Col [None, Some 10]),
      (''shipped'', DatetimeCol [Some 1640995200000000000, None])] ''fill_zero''
   = ([(''city'', ObjectCol [Some (Str ''sao paulo''), Some (Num 0)]),
       (''price'', Float64Col [Some 0, Some 10]),
       (''shipped'', ObjectCol [Some (Ts 1640995200000000000), Some (Num 0)])], [])"
    by code_simp
  from fill_zero_leaves_no_missing
    [of "[(''city'', ObjectCol [Some (Str ''sao paulo''), None]),
      (''price'', Float64Col [None, Some 10]),
      (''shipped'', DatetimeCol [Some 1640995200000000000, None])]"]
  show ?thesis unfolding run by auto
qed

subsection \<open>Dropping rows\<close>

lemma cells_take_rows:
  "\<forall>i\<in>set idx. i < col_len c \<Longrightarrow> col_cells (take_rows idx c) = map (nth (col_cells c)) idx"
  by (cases c) (simp_all add: col_len_def)

lemma len_take_rows: "col_len (take_rows idx c) = length idx"
  by (cases c) (simp_all add: col_len_def)

lemma nrows_dropna:
  "df \<noteq> [] \<Longrightarrow> nrows (dropna df) = length (filter (notna_all df) [0..<nrows df])"
  by (cases df) (auto simp: dropna_def Let_def len_take_rows)

lemma wf_col_len: "wf_table df \<Longrightarrow> (name, c) \<in> set df \<Longrightarrow> col_len c = nrows df"
  by (auto simp: wf_table_def list_all_iff)

text \<open>
  Claim C6. With the strategy \<open>drop\<close> the handler prints nothing and returns a frame in
  which no column has a missing value, and every row of that frame is, cell for cell, a
  row of the input.
\<close>

theorem drop_rows_of_input:
  assumes "wf_table df"
  shows "\<exists>df'. handle_missing_values df ''drop'' = (df', [])
     \<and> (\<forall>(name, c) \<in> set df'. no_missing c)
     \<and> (\<forall>j < nrows df'. \<exists>i < nrows df. row df' j = row df i)"
proof -
  define keep where "keep = filter (notna_all df) [0..<nrows df]"
  have df': "dropna df = map (\<lambda>(name, c). (name, take_rows keep c)) df"
    by (simp add: dropna_def keep_def)
  have keep_lt: "i < nrows df" and keep_ok: "notna_all df i" if "i \<in> set keep" for i
    using that by (auto simp: keep_def)
  have cells: "col_cells (take_rows keep c) = map (nth (col_cells c)) keep"
    if "(name, c) \<in> set df" for name c
    using wf_col_len [OF assms that] keep_lt by (intro cells_take_rows) simp
  have run: "handle_missing_values df ''drop'' = (dropna df, [])"
    by (simp add: handle_missing_values_def)
  have full: "\<forall>(name, c) \<in> set (dropna df). no_missing c"
  proof -
    have "no_missing (take_rows keep c)" if "(name, c) \<in> set df" for name c
    proof -
      have "col_cells c ! i \<noteq> None" if "i \<in> set keep" for i
        using keep_ok [OF that] \<open>(name, c) \<in> set df\<close>
        by (auto simp: notna_all_def list_all_iff)
      then show ?thesis
        by (simp add: no_missing_def cells [OF that] list_all_iff)
    qed
    then show ?thesis by (auto simp: df')
  qed
  have rows: "\<forall>j < nrows (dropna df). \<exists>i < nrows df. row (dropna df) j = row df i"
  proof (intro allI impI)
    fix j assume j: "j < nrows (dropna df)"
    then have "df \<noteq> []" by (auto simp: dropna_def)
    with j have jk: "j < length keep" by (simp add: nrows_dropna keep_def)
    then have "keep ! j \<in> set keep" by simp
    then have "keep ! j < nrows df" by (rule keep_lt)
    moreover have "row (dropna df) j = row df (keep ! j)"
      using jk by (auto simp: row_def df' cells)
    ultimately show "\<exists>i < nrows df. row (dropna df) j = row df i" by blast
  qed
  from run full rows show ?thesis by blast
qed

text \<open>The witness: of three rows the two with a missing cell are dropped, and the one
  row of the result is row 1 of the input.\<close>

theorem drop_rows_of_input_witness:
  "wf_table [(''city'', ObjectCol [None, Some (Str ''rio''), Some (Str ''recife'')]),
             (''price'', Float64Col [Some 5, Some 10, None])]
   \<and> handle_missing_values
       [(''city'', ObjectCol [None, Some (Str ''rio''), Some (Str ''recife'')]),
        (''price'', Float64Col [Some 5, Some 10, None])] ''drop''
     = ([(''city'', ObjectCol [Some (Str ''rio'')]), (''price'', Float64Col [Some 10])], [])
   \<and> no_missing (ObjectCol [Some (Str ''rio'')]) \<and> no_missing (Float64Col [Some 10])
   \<and> row [(''city'', ObjectCol [Some (Str ''rio'')]), (''price'', Float64Col [Some 10])] 0
     = row [(''city'', ObjectCol [None, Some (Str ''rio''), Some (Str ''recife'')]),
            (''price'', Float64Col [Some 5, Some 10, None])] 1"
proof -
  have wf: "wf_table [(''city'', ObjectCol [None, Some (Str ''rio''), Some (Str ''recife'')]),
             (''price'', Float64Col [Some 5, Some 10, None])]"
    by code_simp
  have run: "handle_missing_values
       [(''city'', ObjectCol [None, Some (Str ''rio''), Some (Str ''recife'')]),
        (''price'', Float64Col [Some 5, Some 10, None])] ''drop''
     = ([(''city'', ObjectCol [Some (Str ''rio'')]), (''price'', Float64Col [Some 10])], [])"
    by code_simp
  have same: "row [(''city'', ObjectCol [Some (Str ''rio'')]), (''price'', Float64Col [Some 10])] 0
     = row [(''city'', ObjectCol [None, Some (Str ''rio''), Some (Str ''recife'')]),
            (''price'', Float64Col [Some 5, Some 10, None])] 1"
    by (simp add: row_def)
  from drop_rows_of_input [OF wf] wf same show ?thesis unfolding run by auto
qed

subsection \<open>Filling with the mean or the median\<close>

lemma stat_all_missing:
  assumes "all_missing c"
  shows "series_mean c = None" and "series_median c = None"
proof -
  have "numeric_values c = []"
  proof (cases c)
    case (Float64Col xs)
    with assms have "\<forall>x\<in>set xs. x = None"
      by (auto simp: all_missing_def list_all_iff)
    then have "concat (map (\<lambda>x. case x of None \<Rightarrow> [] | Some q \<Rightarrow> [q]) xs) = []"
      by (induction xs) auto
    with Float64Col show ?thesis by simp
  next
    case (Int64Col xs)
    with assms show ?thesis by (cases xs) (auto simp: all_missing_def)
  qed simp_all
  then show "series_mean c = None" and "series_median c = None"
    by (simp_all add: series_mean_def series_median_def)
qed

lemma fill_step_keeps:
  assumes "map_of d name = Some c" and "fillna c (stat c) = c"
  shows "map_of (fold (\<lambda>col d. case map_of d col of
                      None \<Rightarrow> d
                    | Some c \<Rightarrow> setitem d col (fillna c (stat c))) names d) name = Some c"
  using assms
proof (induction names arbitrary: d)
  case Nil
  then show ?case by simp
next
  case (Cons col names)
  let ?d = "case map_of d col of None \<Rightarrow> d | Some c \<Rightarrow> setitem d col (fillna c (stat c))"
  have "map_of ?d name = Some c"
    using Cons.prems by (auto simp: map_of_setitem split: option.splits)
  from Cons.IH [OF this Cons.prems(2)] show ?case by simp
qed

text \<open>
  Claim C10. When a numeric column of the input holds missing values only, the handler
  with the strategy \<open>fill_mean\<close> or \<open>fill_median\<close> prints nothing and returns a frame in
  which that column is as it was, that is, still entirely missing: the mean and the
  median of such a column are NaN, and filling with NaN substitutes nothing.
\<close>

theorem fill_stat_all_missing:
  assumes "map_of df name = Some c" and "is_numeric c" and "all_missing c"
    and "strategy = ''fill_mean'' \<or> strategy = ''fill_median''"
  shows "\<exists>df'. handle_missing_values df strategy = (df', [])
     \<and> map_of df' name = Some c \<and> all_missing c"
proof -
  have mean: "fillna c (series_mean c) = c" and median: "fillna c (series_median c) = c"
    using stat_all_missing [OF assms(3)] by simp_all
  from assms(4) show ?thesis
  proof
    assume "strategy = ''fill_mean''"
    then have "handle_missing_values df strategy = (fill_numeric series_mean df, [])"
      by (simp add: handle_missing_values_def)
    moreover have "map_of (fill_numeric series_mean df) name = Some c"
      unfolding fill_numeric_def
      by (rule fill_step_keeps [where stat = series_mean, OF assms(1) mean])
    ultimately show ?thesis using assms(3) by simp
  next
    assume "strategy = ''fill_median''"
    then have "handle_missing_values df strategy = (fill_numeric series_median df, [])"
      by (simp add: handle_missing_values_def)
    moreover have "map_of (fill_numeric series_median df) name = Some c"
      unfolding fill_numeric_def
      by (rule fill_step_keeps [where stat = series_median, OF assms(1) median])
    ultimately show ?thesis using assms(3) by simp
  qed
qed

text \<open>The witness: the median fills the one gap of \<open>price\<close> with 15 and leaves the
  column \<open>weight\<close>, which has no value at all, entirely missing.\<close>

theorem fill_stat_all_missing_witness:
  "map_of [(''price'', Float64Col [Some 10, None, Some 20]),
           (''weight'', Float64Col [None, None, None])] ''weight''
     = Some (Float64Col [None, None, None])
   \<and> is_numeric (Float64Col [None, None, None])
   \<and> all_missing (Float64Col [None, None, None])
   \<and> handle_missing_values
       [(''price'', Float64Col [Some 10, None, Some 20]),
        (''weight'', Float64Col [None, None, None])] ''fill_median''
     = ([(''price'', Float64Col [Some 10, Some 15, Some 20]),
         (''weight'', Float64Col [None, None, None])], [])"
proof -
  have col: "map_of [(''price'', Float64Col [Some 10, None, Some 20]),
           (''weight'', Float64Col [None, None, None])] ''weight''
     = Some (Float64Col [None, None, None])"
    by simp
  have num: "is_numeric (Float64Col [None, None, None])"
    by (simp add: is_numeric_def)
  have miss: "all_missing (Float64Col [None, None, None])"
    by (simp add: all_missing_def)
  have run: "handle_missing_values
       [(''price'', Float64Col [Some 10, None, Some 20]),
        (''weight'', Float64Col [None, None, None])] ''fill_median''
     = ([(''price'', Float64Col [Some 10, Some 15, Some 20]),
         (''weight'', Float64Col [None, None, None])], [])"
    by code_simp
  from fill_stat_all_missing [OF col num miss, of "''fill_median''"] col num miss run
  show ?thesis by simp
qed

section \<open>Delivery times\<close>

subsection \<open>The loop over the three date columns\<close>

lemma map_of_names: "map_of df k = Some c \<Longrightarrow> k \<in> set (map fst df)"
  by (induction df) (auto split: if_splits)

lemma check_date_cols_names:
  "check_date_cols conv df cols = Inr (df', r) \<Longrightarrow> map fst df' = map fst df"
proof (induction cols arbitrary: df)
  case Nil
  then show ?case by simp
next
  case (Cons col cols)
  then show ?case
    by (auto split: option.splits if_splits sum.splits
        simp: names_setitem dest: map_of_names)
qed

lemma check_date_cols_keeps_datetime:
  "check_date_cols conv df cols = Inr (df', r) \<Longrightarrow> map_of df k = Some c \<Longrightarrow>
   is_datetime64_dtype c \<Longrightarrow> map_of df' k = Some c"
proof (induction cols arbitrary: df)
  case Nil
  then show ?case by simp
next
  case (Cons col cols)
  show ?case
  proof (cases "map_of df col")
    case None
    with Cons.prems show ?thesis by simp
  next
    case (Some c0)
    show ?thesis
    proof (cases "is_datetime64_dtype c0")
      case True
      with Some Cons.prems Cons.IH show ?thesis by simp
    next
      case False
      with Some Cons.prems obtain c1 where c1: "to_datetime conv c0 = Inr c1"
        and rest: "check_date_cols conv (setitem df col c1) cols = Inr (df', r)"
        by (auto split: sum.splits)
      from False Some Cons.prems have "k \<noteq> col" by auto
      then have "map_of (setitem df col c1) k = Some c"
        using Cons.prems by (simp add: map_of_setitem)
      from Cons.IH [OF rest this Cons.prems(3)] show ?thesis .
    qed
  qed
qed

lemma check_date_cols_column:
  "check_date_cols conv df cols = Inr (df', r) \<Longrightarrow> map_of df k = Some c \<Longrightarrow>
   \<exists>c'. map_of df' k = Some c' \<and> (c' = c \<or> to_datetime conv c = Inr c')"
proof (induction cols arbitrary: df)
  case Nil
  then show ?case by simp
next
  case (Cons col cols)
  show ?case
  proof (cases "map_of df col")
    case None
    with Cons.prems show ?thesis by simp
  next
    case (Some c0)
    show ?thesis
    proof (cases "is_datetime64_dtype c0")
      case True
      with Some Cons.prems Cons.IH show ?thesis by simp
    next
      case False
      with Some Cons.prems obtain c1 where c1: "to_datetime conv c0 = Inr c1"
        and rest: "check_date_cols conv (setitem df col c1) cols = Inr (df', r)"
        by (auto split: sum.splits)
      show ?thesis
      proof (cases "k = col")
        case True
        with Some Cons.prems have c0: "c0 = c" by simp
        have "map_of (setitem df col c1) k = Some c1"
          using True by (simp add: map_of_setitem)
        from check_date_cols_keeps_datetime [OF rest this to_datetime_is_datetime [OF c1]]
        show ?thesis using c1 c0 by simp
      next
        case False
        then have "map_of (setitem df col c1) k = Some c"
          using Cons.prems by (simp add: map_of_setitem)
        from Cons.IH [OF rest this] show ?thesis .
      qed
    qed
  qed
qed

lemma check_date_cols_other:
  "check_date_cols conv df cols = Inr (df', r) \<Longrightarrow> k \<notin> set cols \<Longrightarrow>
   map_of df' k = map_of df k"
proof (induction cols arbitrary: df)
  case Nil
  then show ?case by simp
next
  case (Cons col cols)
  then show ?case
    by (auto split: option.splits if_splits sum.splits simp: map_of_setitem)
qed

lemma check_date_cols_absent:
  "check_date_cols conv df cols = Inr (df', r) \<Longrightarrow>
   (map_of df' k = None) = (map_of df k = None)"
proof (induction cols arbitrary: df)
  case Nil
  then show ?case by simp
next
  case (Cons col cols)
  show ?case
  proof (cases "map_of df col")
    case None
    with Cons.prems show ?thesis by simp
  next
    case (Some c0)
    show ?thesis
    proof (cases "is_datetime64_dtype c0")
      case True
      with Some Cons.prems Cons.IH show ?thesis by simp
    next
      case False
      with Some Cons.prems obtain c1 where
        rest: "check_date_cols conv (setitem df col c1) cols = Inr (df', r)"
        by (auto split: sum.splits)
      from Cons.IH [OF rest] Some show ?thesis
        by (auto simp: map_of_setitem split: if_splits)
    qed
  qed
qed

lemma check_date_cols_stopped:
  "check_date_cols conv df cols = Inr (df', Some col) \<Longrightarrow>
   col \<in> set cols \<and> map_of df col = None"
proof (induction cols arbitrary: df)
  case Nil
  then show ?case by simp
next
  case (Cons a cols)
  show ?case
  proof (cases "map_of df a")
    case None
    with Cons.prems show ?thesis by simp
  next
    case (Some c0)
    show ?thesis
    proof (cases "is_datetime64_dtype c0")
      case True
      with Some Cons.prems Cons.IH show ?thesis by simp
    next
      case False
      with Some Cons.prems obtain c1 where
        rest: "check_date_cols conv (setitem df a c1) cols = Inr (df', Some col)"
        by (auto split: sum.splits)
      from Cons.IH [OF rest] show ?thesis
        by (auto simp: map_of_setitem split: if_splits)
    qed
  qed
qed

lemma check_date_cols_done:
  "check_date_cols conv df cols = Inr (df', None) \<Longrightarrow> k \<in> set cols \<Longrightarrow>
   \<exists>xs. map_of df' k = Some (DatetimeCol xs)"
proof (induction cols arbitrary: df)
  case Nil
  then show ?case by simp
next
  case (Cons col cols)
  show ?case
  proof (cases "map_of df col")
    case None
    with Cons.prems show ?thesis by simp
  next
    case (Some c0)
    have later: "\<exists>xs. map_of df' col = Some (DatetimeCol xs)"
      if "check_date_cols conv d cols = Inr (df', None)" "map_of d col = Some c"
        "is_datetime64_dtype c" for d c
      using check_date_cols_keeps_datetime [OF that] that(3)
      by (cases c) (simp_all add: is_datetime64_dtype_def)
    show ?thesis
    proof (cases "is_datetime64_dtype c0")
      case True
      with Some Cons.prems have rest: "check_date_cols conv df cols = Inr (df', None)"
        by simp
      show ?thesis
      proof (cases "k = col")
        case True
        with later [OF rest Some \<open>is_datetime64_dtype c0\<close>] show ?thesis by simp
      next
        case False
        with Cons.prems Cons.IH [OF rest] show ?thesis by simp
      qed
    next
      case False
      with Some Cons.prems obtain c1 where c1: "to_datetime conv c0 = Inr c1"
        and rest: "check_date_cols conv (setitem df col c1) cols = Inr (df', None)"
        by (auto split: sum.splits)
      show ?thesis
      proof (cases "k = col")
        case True
        have "map_of (setitem df col c1) col = Some c1" by (simp add: map_of_setitem)
        from later [OF rest this to_datetime_is_datetime [OF c1]] True show ?thesis by simp
      next
        case False
        with Cons.prems Cons.IH [OF rest] show ?thesis by simp
      qed
    qed
  qed
qed

lemma check_date_cols_unchanged:
  "\<forall>col\<in>set cols. \<forall>c. map_of df col = Some c \<longrightarrow> is_datetime64_dtype c \<Longrightarrow>
   check_date_cols conv df cols = Inr (df, find (\<lambda>col. map_of df col = None) cols)"
proof (induction cols)
  case Nil
  then show ?case by simp
next
  case (Cons col cols)
  then show ?case by (cases "map_of df col") auto
qed

lemma map_result_nth:
  "map_result f xs = Inr ys \<Longrightarrow>
   length ys = length xs \<and> (\<forall>i<length xs. f (xs ! i) = Inr (ys ! i))"
proof (induction xs arbitrary: ys)
  case Nil
  then show ?case by simp
next
  case (Cons x xs)
  from Cons.prems obtain y ys' where y: "f x = Inr y" and ys': "map_result f xs = Inr ys'"
    and ys: "ys = y # ys'"
    by (auto split: sum.splits)
  from Cons.IH [OF ys'] y ys show ?case
    by (auto simp: nth_Cons split: nat.splits)
qed

lemma len_to_datetime: "to_datetime conv c = Inr c' \<Longrightarrow> col_len c' = col_len c"
  by (auto simp: to_datetime_def col_len_def split: if_splits sum.splits dest: map_result_nth)

lemma check_date_cols_len:
  assumes "check_date_cols conv df cols = Inr (df', r)" and "map_of df k = Some c"
    and "map_of df' k = Some c'"
  shows "col_len c' = col_len c"
  using check_date_cols_column [OF assms(1,2)] assms(3) by (auto simp: len_to_datetime)

subsection \<open>One row of the result\<close>

lemma datetime_sub_nth:
  assumes "datetime_sub xs ys = Inr td" and "i < length xs" and "i < length ys"
  shows "i < length td"
    and "div_scalar (total_seconds td) 86400 ! i = days_cell (xs ! i, ys ! i)"
proof -
  from map_result_nth [OF assms(1) [unfolded datetime_sub_def]] assms(2,3)
  have len: "length td = min (length xs) (length ys)"
    and at: "checked_sub (xs ! i, ys ! i) = Inr (td ! i)"
    by auto
  from len assms(2,3) show i: "i < length td" by simp
  from at [symmetric] have "map_option (\<lambda>n. of_int n / 1000000000 / 86400) (td ! i)
      = days_cell (xs ! i, ys ! i)"
    by (cases "xs ! i"; cases "ys ! i") (auto split: if_splits)
  with i show "div_scalar (total_seconds td) 86400 ! i = days_cell (xs ! i, ys ! i)"
    by (simp add: div_scalar_def total_seconds_def option.map_comp comp_def)
qed

lemma calculate_success:
  assumes "calculate_delivery_time conv orders = Inr (out, [])"
  shows "\<exists>df ps ds es td1 td2.
     check_date_cols conv orders date_cols = Inr (df, None)
   \<and> map_of df ''order_purchase_timestamp'' = Some (DatetimeCol ps)
   \<and> map_of df ''order_delivered_customer_date'' = Some (DatetimeCol ds)
   \<and> map_of df ''order_estimated_delivery_date'' = Some (DatetimeCol es)
   \<and> datetime_sub ds ps = Inr td1 \<and> datetime_sub es ps = Inr td2
   \<and> out = setitem (setitem (setitem (setitem df
        ''delivery_time_days'' (Float64Col (div_scalar (total_seconds td1) 86400)))
        ''estimated_delivery_time_days'' (Float64Col (div_scalar (total_seconds td2) 86400)))
        ''delivery_time_difference''
           (Float64Col (float_sub (div_scalar (total_seconds td1) 86400)
                                  (div_scalar (total_seconds td2) 86400))))
        ''delivered_on_time''
           (BoolCol (le_scalar (float_sub (div_scalar (total_seconds td1) 86400)
                                          (div_scalar (total_seconds td2) 86400)) 0))"
proof -
  from assms obtain df where chk: "check_date_cols conv orders date_cols = Inr (df, None)"
    by (auto simp: calculate_delivery_time_def split: sum.splits prod.splits option.splits)
  from check_date_cols_done [OF chk] obtain ps ds es where
    ps: "map_of df ''order_purchase_timestamp'' = Some (DatetimeCol ps)" and
    ds: "map_of df ''order_delivered_customer_date'' = Some (DatetimeCol ds)" and
    es: "map_of df ''order_estimated_delivery_date'' = Some (DatetimeCol es)"
    unfolding date_cols_def by fastforce
  note defs = calculate_delivery_time_def delivery_days_def datetime_values_def
    float_values_def and_then_def map_of_setitem Let_def
  from assms chk ps ds es obtain td1 where td1: "datetime_sub ds ps = Inr td1"
    by (cases "datetime_sub ds ps") (simp_all add: defs)
  from assms chk ps ds es td1 obtain td2 where td2: "datetime_sub es ps = Inr td2"
    by (cases "datetime_sub es ps") (simp_all add: defs)
  from assms chk ps ds es td1 td2 show ?thesis
    by (simp add: defs)
qed

lemma calculate_row:
  assumes "wf_table orders" and "calculate_delivery_time conv orders = Inr (out, [])"
    and "i < nrows orders"
  shows "\<exists>p d e.
     cell out ''order_purchase_timestamp'' i = map_option Ts p
   \<and> cell out ''order_delivered_customer_date'' i = map_option Ts d
   \<and> cell out ''order_estimated_delivery_date'' i = map_option Ts e
   \<and> cell out ''delivery_time_days'' i = map_option Flt (days_cell (d, p))
   \<and> cell out ''estimated_delivery_time_days'' i = map_option Flt (days_cell (e, p))
   \<and> cell out ''delivery_time_difference'' i
       = map_option Flt (sub_cell (days_cell (d, p), days_cell (e, p)))
   \<and> cell out ''delivered_on_time'' i
       = Some (Boolean (case sub_cell (days_cell (d, p), days_cell (e, p)) of
                          None \<Rightarrow> False | Some q \<Rightarrow> q \<le> 0))"
proof -
  from calculate_success [OF assms(2)] obtain df ps ds es td1 td2 where
    chk: "check_date_cols conv orders date_cols = Inr (df, None)" and
    ps: "map_of df ''order_purchase_timestamp'' = Some (DatetimeCol ps)" and
    ds: "map_of df ''order_delivered_customer_date'' = Some (DatetimeCol ds)" and
    es: "map_of df ''order_estimated_delivery_date'' = Some (DatetimeCol es)" and
    td1: "datetime_sub ds ps = Inr td1" and td2: "datetime_sub es ps = Inr td2" and
    out: "out = setitem (setitem (setitem (setitem df
        ''delivery_time_days'' (Float64Col (div_scalar (total_seconds td1) 86400)))
        ''estimated_delivery_time_days'' (Float64Col (div_scalar (total_seconds td2) 86400)))
        ''delivery_time_difference''
           (Float64Col (float_sub (div_scalar (total_seconds td1) 86400)
                                  (div_scalar (total_seconds td2) 86400))))
        ''delivered_on_time''
           (BoolCol (le_scalar (float_sub (div_scalar (total_seconds td1) 86400)
                                          (div_scalar (total_seconds td2) 86400)) 0))"
    by blast
  have len: "col_len c = nrows orders" if "map_of df k = Some c" for k c
  proof -
    from that check_date_cols_absent [OF chk, of k] obtain c0 where
      c0: "map_of orders k = Some c0" by auto
    from check_date_cols_len [OF chk c0 that] wf_col_len [OF assms(1) map_of_SomeD [OF c0]]
    show ?thesis by simp
  qed
  from len [OF ps] len [OF ds] len [OF es] assms(3)
  have ip: "i < length ps" and id: "i < length ds" and ie: "i < length es"
    by (simp_all add: col_len_def)
  note a = datetime_sub_nth [OF td1 id ip]
  note b = datetime_sub_nth [OF td2 ie ip]
  let ?A = "div_scalar (total_seconds td1) 86400"
  let ?E = "div_scalar (total_seconds td2) 86400"
  have la: "i < length ?A" and lb: "i < length ?E"
    using a(1) b(1) by (simp_all add: div_scalar_def total_seconds_def)
  then have diff: "float_sub ?A ?E ! i = sub_cell (days_cell (ds ! i, ps ! i), days_cell (es ! i, ps ! i))"
    and ld: "i < length (float_sub ?A ?E)"
    using a(2) b(2) by (simp_all add: float_sub_def)
  show ?thesis
    apply (rule exI [of _ "ps ! i"], rule exI [of _ "ds ! i"], rule exI [of _ "es ! i"])
    using ps ds es ip id ie la lb ld a(2) b(2) diff
    by (simp add: out cell_def map_of_setitem le_scalar_def)
qed

subsection \<open>The on-time flag\<close>

text \<open>
  Claim C1. When the calculator succeeds on an orders frame (it returns a frame and
  reports no missing column), then in every row in which the purchase, the delivered and
  the estimated timestamp are present, the delivery-time difference is a number \<open>q\<close>, and
  \<open>delivered_on_time\<close> is true if and only if \<open>q \<le> 0\<close>.
\<close>

theorem on_time_iff_difference:
  assumes "wf_table orders"
    and "calculate_delivery_time conv orders = Inr (out, [])"
    and "i < nrows orders"
    and "cell out ''order_purchase_timestamp'' i \<noteq> None"
    and "cell out ''order_delivered_customer_date'' i \<noteq> None"
    and "cell out ''order_estimated_delivery_date'' i \<noteq> None"
  shows "\<exists>q b. cell out ''delivery_time_difference'' i = Some (Flt q)
     \<and> cell out ''delivered_on_time'' i = Some (Boolean b)
     \<and> (q \<le> 0) = b"
proof -
  from calculate_row [OF assms(1-3)] obtain p d e where
    r: "cell out ''order_purchase_timestamp'' i = map_option Ts p"
       "cell out ''order_delivered_customer_date'' i = map_option Ts d"
       "cell out ''order_estimated_delivery_date'' i = map_option Ts e"
       "cell out ''delivery_time_difference'' i
          = map_option Flt (sub_cell (days_cell (d, p), days_cell (e, p)))"
       "cell out ''delivered_on_time'' i
          = Some (Boolean (case sub_cell (days_cell (d, p), days_cell (e, p)) of
                          None \<Rightarrow> False | Some q \<Rightarrow> q \<le> 0))"
    by blast
  from r(1-3) assms(4-6) obtain p' d' e' where "p = Some p'" "d = Some d'" "e = Some e'"
    by (cases p; cases d; cases e) simp_all
  with r(4,5) show ?thesis by simp
qed

text \<open>The witness is the scenario of the specification: bought on 2022-01-01, delivered
  on 2022-01-05, promised for 2022-01-10; the difference is -5 days and the flag is true.\<close>

theorem on_time_iff_difference_witness:
  "wf_table
     [(''order_purchase_timestamp'', ObjectCol [Some (Str ''2022-01-01 00:00:00'')]),
      (''order_delivered_customer_date'', ObjectCol [Some (Str ''2022-01-05 00:00:00'')]),
      (''order_estimated_delivery_date'', ObjectCol [Some (Str ''2022-01-10 00:00:00'')])]
   \<and> calculate_delivery_time sample_conv
     [(''order_purchase_timestamp'', ObjectCol [Some (Str ''2022-01-01 00:00:00'')]),
      (''order_delivered_customer_date'', ObjectCol [Some (Str ''2022-01-05 00:00:00'')]),
      (''order_estimated_delivery_date'', ObjectCol [Some (Str ''2022-01-10 00:00:00'')])]
   = Inr ([(''order_purchase_timestamp'', DatetimeCol [Some 1640995200000000000]),
           (''order_delivered_customer_date'', DatetimeCol [Some 1641340800000000000]),
           (''order_estimated_delivery_date'', DatetimeCol [Some 1641772800000000000]),
           (''delivery_time_days'', Float64Col [Some 4]),
           (''estimated_delivery_time_days'', Float64Col [Some 9]),
           (''delivery_time_difference'', Float64Col [Some (- 5)]),
           (''delivered_on_time'', BoolCol [True])], [])
   \<and> (\<exists>q b. Some (Flt (- 5)) = Some (Flt q) \<and> Some (Boolean True) = Some (Boolean b)
         \<and> (q \<le> 0) = b)"
proof -
  let ?orders = "[(''order_purchase_timestamp'', ObjectCol [Some (Str ''2022-01-01 00:00:00'')]),
      (''order_delivered_customer_date'', ObjectCol [Some (Str ''2022-01-05 00:00:00'')]),
      (''order_estimated_delivery_date'', ObjectCol [Some (Str ''2022-01-10 00:00:00'')])]"
  let ?out = "[(''order_purchase_timestamp'', DatetimeCol [Some 1640995200000000000]),
           (''order_delivered_customer_date'', DatetimeCol [Some 1641340800000000000]),
           (''order_estimated_delivery_date'', DatetimeCol [Some 1641772800000000000]),
           (''delivery_time_days'', Float64Col [Some 4]),
           (''estimated_delivery_time_days'', Float64Col [Some 9]),
           (''delivery_time_difference'', Float64Col [Some (- 5)]),
           (''delivered_on_time'', BoolCol [True])]"
  have wf: "wf_table ?orders" by code_simp
  have run: "calculate_delivery_time sample_conv ?orders = Inr (?out, [])" by code_simp
  have i: "0 < nrows ?orders" by (simp add: col_len_def)
  have p: "cell ?out ''order_purchase_timestamp'' 0 \<noteq> None"
    and d: "cell ?out ''order_delivered_customer_date'' 0 \<noteq> None"
    and e: "cell ?out ''order_estimated_delivery_date'' 0 \<noteq> None"
    by (simp_all add: cell_def)
  have "cell ?out ''delivery_time_difference'' 0 = Some (Flt (- 5))"
    and "cell ?out ''delivered_on_time'' 0 = Some (Boolean True)"
    by (simp_all add: cell_def)
  with on_time_iff_difference [OF wf run i p d e] wf run show ?thesis by simp
qed

subsection \<open>Rows with a missing timestamp\<close>

text \<open>
  Claim C4, as the code has it. When the calculator succeeds, then in a row with a
  missing timestamp the numeric results that depend on it are missing: without the
  purchase timestamp all three of \<open>delivery_time_days\<close>, \<open>estimated_delivery_time_days\<close>
  and \<open>delivery_time_difference\<close>; without the delivered timestamp \<open>delivery_time_days\<close>
  and the difference; without the estimated timestamp \<open>estimated_delivery_time_days\<close>
  and the difference. The flag \<open>delivered_on_time\<close> is not missing there: it is false,
  since a comparison with NaN is false.
\<close>

theorem missing_timestamp_results:
  assumes "wf_table orders"
    and "calculate_delivery_time conv orders = Inr (out, [])"
    and "i < nrows orders"
  shows "(cell out ''order_purchase_timestamp'' i = None \<longrightarrow>
            cell out ''delivery_time_days'' i = None
          \<and> cell out ''estimated_delivery_time_days'' i = None
          \<and> cell out ''delivery_time_difference'' i = None
          \<and> cell out ''delivered_on_time'' i = Some (Boolean False))
       \<and> (cell out ''order_delivered_customer_date'' i = None \<longrightarrow>
            cell out ''delivery_time_days'' i = None
          \<and> cell out ''delivery_time_difference'' i = None
          \<and> cell out ''delivered_on_time'' i = Some (Boolean False))
       \<and> (cell out ''order_estimated_delivery_date'' i = None \<longrightarrow>
            cell out ''estimated_delivery_time_days'' i = None
          \<and> cell out ''delivery_time_difference'' i = None
          \<and> cell out ''delivered_on_time'' i = Some (Boolean False))"
proof -
  from calculate_row [OF assms] obtain p d e where
    r: "cell out ''order_purchase_timestamp'' i = map_option Ts p"
       "cell out ''order_delivered_customer_date'' i = map_option Ts d"
       "cell out ''order_estimated_delivery_date'' i = map_option Ts e"
       "cell out ''delivery_time_days'' i = map_option Flt (days_cell (d, p))"
       "cell out ''estimated_delivery_time_days'' i = map_option Flt (days_cell (e, p))"
       "cell out ''delivery_time_difference'' i
          = map_option Flt (sub_cell (days_cell (d, p), days_cell (e, p)))"
       "cell out ''delivered_on_time'' i
          = Some (Boolean (case sub_cell (days_cell (d, p), days_cell (e, p)) of
                          None \<Rightarrow> False | Some q \<Rightarrow> q \<le> 0))"
    by blast
  show ?thesis
    unfolding r by (cases p; cases d; cases e) simp_all
qed

text \<open>The witness and the counterexample share one order: bought and promised, not yet
  delivered. The results that need the delivered timestamp are missing; the flag, which
  the claim as written wants missing too, is false.\<close>

theorem missing_timestamp_results_witness:
  "wf_table
     [(''order_purchase_timestamp'', DatetimeCol [Some 1640995200000000000]),
      (''order_delivered_customer_date'', DatetimeCol [None]),
      (''order_estimated_delivery_date'', DatetimeCol [Some 1641772800000000000])]
   \<and> calculate_delivery_time sample_conv
     [(''order_purchase_timestamp'', DatetimeCol [Some 1640995200000000000]),
      (''order_delivered_customer_date'', DatetimeCol [None]),
      (''order_estimated_delivery_date'', DatetimeCol [Some 1641772800000000000])]
   = Inr ([(''order_purchase_timestamp'', DatetimeCol [Some 1640995200000000000]),
           (''order_delivered_customer_date'', DatetimeCol [None]),
           (''order_estimated_delivery_date'', DatetimeCol [Some 1641772800000000000]),
           (''delivery_time_days'', Float64Col [None]),
           (''estimated_delivery_time_days'', Float64Col [Some 9]),
           (''delivery_time_difference'', Float64Col [None]),
           (''delivered_on_time'', BoolCol [False])], [])"
proof -
  let ?orders = "[(''order_purchase_timestamp'', DatetimeCol [Some 1640995200000000000]),
      (''order_delivered_customer_date'', DatetimeCol [None]),
      (''order_estimated_delivery_date'', DatetimeCol [Some 1641772800000000000])]"
  let ?out = "[(''order_purchase_timestamp'', DatetimeCol [Some 1640995200000000000]),
           (''order_delivered_customer_date'', DatetimeCol [None]),
           (''order_estimated_delivery_date'', DatetimeCol [Some 1641772800000000000]),
           (''delivery_time_days'', Float64Col [None]),
           (''estimated_delivery_time_days'', Float64Col [Some 9]),
           (''delivery_time_difference'', Float64Col [None]),
           (''delivered_on_time'', BoolCol [False])]"
  have wf: "wf_table ?orders" by code_simp
  have run: "calculate_delivery_time sample_conv ?orders = Inr (?out, [])" by code_simp
  have i: "0 < nrows ?orders" by (simp add: col_len_def)
  from missing_timestamp_results [OF wf run i] wf run show ?thesis by simp
qed

theorem on_time_flag_not_missing_counterexample:
  "calculate_delivery_time sample_conv
     [(''order_purchase_timestamp'', DatetimeCol [Some 1640995200000000000]),
      (''order_delivered_customer_date'', DatetimeCol [None]),
      (''order_estimated_delivery_date'', DatetimeCol [Some 1641772800000000000])]
   = Inr ([(''order_purchase_timestamp'', DatetimeCol [Some 1640995200000000000]),
           (''order_delivered_customer_date'', DatetimeCol [None]),
           (''order_estimated_delivery_date'', DatetimeCol [Some 1641772800000000000]),
           (''delivery_time_days'', Float64Col [None]),
           (''estimated_delivery_time_days'', Float64Col [Some 9]),
           (''delivery_time_difference'', Float64Col [None]),
           (''delivered_on_time'', BoolCol [False])], [])
   \<and> cell [(''order_purchase_timestamp'', DatetimeCol [Some 1640995200000000000]),
           (''order_delivered_customer_date'', DatetimeCol [None]),
           (''order_estimated_delivery_date'', DatetimeCol [Some 1641772800000000000]),
           (''delivery_time_days'', Float64Col [None]),
           (''estimated_delivery_time_days'', Float64Col [Some 9]),
           (''delivery_time_difference'', Float64Col [None]),
           (''delivered_on_time'', BoolCol [False])] ''order_delivered_customer_date'' 0 = None
   \<and> cell [(''order_purchase_timestamp'', DatetimeCol [Some 1640995200000000000]),
           (''order_delivered_customer_date'', DatetimeCol [None]),
           (''order_estimated_delivery_date'', DatetimeCol [Some 1641772800000000000]),
           (''delivery_time_days'', Float64Col [None]),
           (''estimated_delivery_time_days'', Float64Col [Some 9]),
           (''delivery_time_difference'', Float64Col [None]),
           (''delivered_on_time'', BoolCol [False])] ''delivered_on_time'' 0 \<noteq> None"
proof -
  have "calculate_delivery_time sample_conv
     [(''order_purchase_timestamp'', DatetimeCol [Some 1640995200000000000]),
      (''order_delivered_customer_date'', DatetimeCol [None]),
      (''order_estimated_delivery_date'', DatetimeCol [Some 1641772800000000000])]
   = Inr ([(''order_purchase_timestamp'', DatetimeCol [Some 1640995200000000000]),
           (''order_delivered_customer_date'', DatetimeCol [None]),
           (''order_estimated_delivery_date'', DatetimeCol [Some 1641772800000000000]),
           (''delivery_time_days'', Float64Col [None]),
           (''estimated_delivery_time_days'', Float64Col [Some 9]),
           (''delivery_time_difference'', Float64Col [None]),
           (''delivered_on_time'', BoolCol [False])], [])"
    by code_simp
  then show ?thesis by (simp add: cell_def)
qed

subsection \<open>A missing date column\<close>

lemma check_date_cols_missing:
  assumes "\<exists>col\<in>set cols. \<not> has_column df col"
  shows "check_date_cols conv df cols \<noteq> Inr (df', None)"
proof
  assume run: "check_date_cols conv df cols = Inr (df', None)"
  from assms obtain col where col: "col \<in> set cols" "map_of df col = None"
    by (auto simp: has_column_def)
  from check_date_cols_done [OF run col(1)] check_date_cols_absent [OF run, of col] col(2)
  show False by auto
qed

lemma setitem_absent:
  "map_of df col = Some c0 \<Longrightarrow>
   (\<lambda>k. map_of (setitem df col c1) k = None) = (\<lambda>k. map_of df k = None)"
  by (auto simp: fun_eq_iff map_of_setitem)

lemma setitem_present:
  "map_of df col = Some c0 \<Longrightarrow>
   (\<lambda>k. map_of (setitem df col c1) k \<noteq> None) = (\<lambda>k. map_of df k \<noteq> None)"
  by (auto simp: fun_eq_iff map_of_setitem)

lemma check_date_cols_exact:
  "distinct cols \<Longrightarrow> check_date_cols conv df cols = Inr (df', r) \<Longrightarrow>
     r = find (\<lambda>k. map_of df k = None) cols
   \<and> (\<forall>name c. map_of df name = Some c \<longrightarrow>
        (if name \<in> set (takeWhile (\<lambda>k. map_of df k \<noteq> None) cols) \<and> \<not> is_datetime64_dtype c
         then \<exists>c'. to_datetime conv c = Inr c' \<and> map_of df' name = Some c'
         else map_of df' name = Some c))"
proof (induction cols arbitrary: df)
  case Nil
  then show ?case by simp
next
  case (Cons col cols)
  from Cons.prems have fresh: "col \<notin> set cols" and dist: "distinct cols" by simp_all
  have out: "col \<notin> set (takeWhile P cols)" for P
    using fresh set_takeWhileD by fastforce
  show ?case
  proof (cases "map_of df col")
    case None
    with Cons.prems show ?thesis by simp
  next
    case (Some c0)
    show ?thesis
    proof (cases "is_datetime64_dtype c0")
      case True
      with Some Cons.prems have rest: "check_date_cols conv df cols = Inr (df', r)" by simp
      note ih = Cons.IH [OF dist rest]
      from ih Some have "r = find (\<lambda>k. map_of df k = None) (col # cols)" by simp
      moreover have "if name \<in> set (takeWhile (\<lambda>k. map_of df k \<noteq> None) (col # cols))
              \<and> \<not> is_datetime64_dtype c
          then \<exists>c'. to_datetime conv c = Inr c' \<and> map_of df' name = Some c'
          else map_of df' name = Some c" if c: "map_of df name = Some c" for name c
      proof (cases "name = col")
        case True
        with c Some \<open>is_datetime64_dtype c0\<close> have "is_datetime64_dtype c" by simp
        moreover from ih c True out have "map_of df' name = Some c" by auto
        ultimately show ?thesis by simp
      next
        case False
        with ih c Some show ?thesis by simp
      qed
      ultimately show ?thesis by blast
    next
      case False
      with Some Cons.prems obtain c1 where c1: "to_datetime conv c0 = Inr c1"
        and rest: "check_date_cols conv (setitem df col c1) cols = Inr (df', r)"
        by (auto split: sum.splits)
      note ih = Cons.IH [OF dist rest, unfolded setitem_absent [OF Some]
          setitem_present [OF Some]]
      from ih Some have "r = find (\<lambda>k. map_of df k = None) (col # cols)" by simp
      moreover have "if name \<in> set (takeWhile (\<lambda>k. map_of df k \<noteq> None) (col # cols))
              \<and> \<not> is_datetime64_dtype c
          then \<exists>c'. to_datetime conv c = Inr c' \<and> map_of df' name = Some c'
          else map_of df' name = Some c" if c: "map_of df name = Some c" for name c
      proof (cases "name = col")
        case True
        have "map_of (setitem df col c1) col = Some c1" by (simp add: map_of_setitem)
        with ih out have "map_of df' col = Some c1" by auto
        with True c Some False c1 show ?thesis by simp
      next
        case False
        then have "map_of (setitem df col c1) name = Some c"
          using c by (simp add: map_of_setitem)
        with ih False Some show ?thesis by simp
      qed
      ultimately show ?thesis by blast
    qed
  qed
qed

lemma check_date_cols_returns:
  "distinct cols \<Longrightarrow>
   \<forall>name\<in>set (takeWhile (\<lambda>k. map_of df k \<noteq> None) cols). \<forall>c. map_of df name = Some c \<longrightarrow>
      \<not> is_datetime64_dtype c \<longrightarrow> (\<exists>c'. to_datetime conv c = Inr c') \<Longrightarrow>
   \<exists>df'. check_date_cols conv df cols = Inr (df', find (\<lambda>k. map_of df k = None) cols)"
proof (induction cols arbitrary: df)
  case Nil
  then show ?case by simp
next
  case (Cons col cols)
  from Cons.prems have fresh: "col \<notin> set cols" and dist: "distinct cols" by simp_all
  show ?case
  proof (cases "map_of df col")
    case None
    then show ?thesis by simp
  next
    case (Some c0)
    show ?thesis
    proof (cases "is_datetime64_dtype c0")
      case True
      have "\<exists>df'. check_date_cols conv df cols = Inr (df', find (\<lambda>k. map_of df k = None) cols)"
        using Cons.prems(2) Some by (intro Cons.IH [OF dist]) simp
      with Some True show ?thesis by simp
    next
      case False
      with Cons.prems(2) Some obtain c1 where c1: "to_datetime conv c0 = Inr c1" by auto
      have "\<forall>name\<in>set (takeWhile (\<lambda>k. map_of df k \<noteq> None) cols).
          \<forall>c. map_of (setitem df col c1) name = Some c \<longrightarrow>
          \<not> is_datetime64_dtype c \<longrightarrow> (\<exists>c'. to_datetime conv c = Inr c')"
      proof (intro ballI allI impI)
        fix name c
        assume n: "name \<in> set (takeWhile (\<lambda>k. map_of df k \<noteq> None) cols)"
          and c: "map_of (setitem df col c1) name = Some c" and nd: "\<not> is_datetime64_dtype c"
        from n fresh set_takeWhileD have "name \<noteq> col" by fastforce
        with c have "map_of df name = Some c" by (simp add: map_of_setitem)
        with Cons.prems(2) n Some nd show "\<exists>c'. to_datetime conv c = Inr c'" by simp
      qed
      from Cons.IH [OF dist, of "setitem df col c1",
          unfolded setitem_absent [OF Some] setitem_present [OF Some], OF this]
      show ?thesis using Some False c1 by simp
    qed
  qed
qed

text \<open>
  Claim C2, as the code has it. Let the orders frame lack at least one of the three date
  columns, and let \<open>col\<close> be the first of them (in the order purchase, delivered,
  estimated) that it lacks. Whenever the calculator returns, it reports \<open>col\<close> as not
  found, and the frame it returns has the column names of the input, none added; each
  date column listed before \<open>col\<close> that is not of the datetime dtype is returned
  converted by \<open>to_datetime\<close>, so it differs from the input's column; every other column
  is the input's column. The calculator returns whenever these conversions do not raise.
  It returns the input itself, unchanged, when the date columns that the frame has are
  already of the datetime dtype, and when the purchase timestamp is the missing column.
\<close>

theorem missing_date_column:
  assumes "\<exists>col\<in>set date_cols. \<not> has_column orders col"
  shows "\<exists>col. find (\<lambda>k. \<not> has_column orders k) date_cols = Some col
     \<and> (\<forall>df msgs. calculate_delivery_time conv orders = Inr (df, msgs) \<longrightarrow>
            msgs = [ColumnNotFound col]
          \<and> map fst df = map fst orders
          \<and> (\<forall>name. name \<notin> set date_cols \<longrightarrow> map_of df name = map_of orders name)
          \<and> (\<forall>name c. map_of orders name = Some c \<longrightarrow>
               (if name \<in> set (takeWhile (has_column orders) date_cols)
                   \<and> \<not> is_datetime64_dtype c
                then \<exists>c'. to_datetime conv c = Inr c' \<and> map_of df name = Some c' \<and> c' \<noteq> c
                else map_of df name = Some c)))
     \<and> ((\<forall>name\<in>set (takeWhile (has_column orders) date_cols). \<forall>c.
            map_of orders name = Some c \<longrightarrow> \<not> is_datetime64_dtype c \<longrightarrow>
            (\<exists>c'. to_datetime conv c = Inr c')) \<longrightarrow>
          (\<exists>df. calculate_delivery_time conv orders = Inr (df, [ColumnNotFound col])))
     \<and> ((\<forall>name\<in>set date_cols. \<forall>c. map_of orders name = Some c \<longrightarrow> is_datetime64_dtype c) \<longrightarrow>
          calculate_delivery_time conv orders = Inr (orders, [ColumnNotFound col]))
     \<and> (\<not> has_column orders ''order_purchase_timestamp'' \<longrightarrow>
          calculate_delivery_time conv orders
            = Inr (orders, [ColumnNotFound ''order_purchase_timestamp'']))"
proof -
  have absent: "(\<lambda>k. \<not> has_column orders k) = (\<lambda>k. map_of orders k = None)"
    and present: "has_column orders = (\<lambda>k. map_of orders k \<noteq> None)"
    by (simp_all add: fun_eq_iff has_column_def)
  have dist: "distinct date_cols" by (simp add: date_cols_def)
  from assms obtain col where
    col: "find (\<lambda>k. map_of orders k = None) date_cols = Some col"
    by (cases "find (\<lambda>k. map_of orders k = None) date_cols")
       (auto simp: find_None_iff has_column_def)
  have early: "check_date_cols conv orders date_cols = Inr (df, Some col)
      \<and> msgs = [ColumnNotFound col]"
    if ret: "calculate_delivery_time conv orders = Inr (df, msgs)" for df msgs
  proof (cases "check_date_cols conv orders date_cols")
    case (Inl e)
    with ret show ?thesis by (simp add: calculate_delivery_time_def)
  next
    case (Inr pr)
    obtain df0 r where pr: "pr = (df0, r)" by (cases pr)
    from check_date_cols_exact [OF dist Inr [unfolded pr]] col have r: "r = Some col"
      by simp
    with Inr pr ret show ?thesis by (simp add: calculate_delivery_time_def)
  qed
  have part1: "msgs = [ColumnNotFound col]
          \<and> map fst df = map fst orders
          \<and> (\<forall>name. name \<notin> set date_cols \<longrightarrow> map_of df name = map_of orders name)
          \<and> (\<forall>name c. map_of orders name = Some c \<longrightarrow>
               (if name \<in> set (takeWhile (has_column orders) date_cols)
                   \<and> \<not> is_datetime64_dtype c
                then \<exists>c'. to_datetime conv c = Inr c' \<and> map_of df name = Some c' \<and> c' \<noteq> c
                else map_of df name = Some c))"
    if ret: "calculate_delivery_time conv orders = Inr (df, msgs)" for df msgs
  proof -
    from early [OF ret] have
      chk: "check_date_cols conv orders date_cols = Inr (df, Some col)"
      and msgs: "msgs = [ColumnNotFound col]"
      by simp_all
    have cols: "if name \<in> set (takeWhile (has_column orders) date_cols)
                   \<and> \<not> is_datetime64_dtype c
                then \<exists>c'. to_datetime conv c = Inr c' \<and> map_of df name = Some c' \<and> c' \<noteq> c
                else map_of df name = Some c"
      if c: "map_of orders name = Some c" for name c
    proof -
      from check_date_cols_exact [OF dist chk] have
        "\<forall>name c. map_of orders name = Some c \<longrightarrow>
          (if name \<in> set (takeWhile (\<lambda>k. map_of orders k \<noteq> None) date_cols)
              \<and> \<not> is_datetime64_dtype c
           then \<exists>c'. to_datetime conv c = Inr c' \<and> map_of df name = Some c'
           else map_of df name = Some c)"
        by (rule conjunct2)
      with c have inst:
        "if name \<in> set (takeWhile (has_column orders) date_cols) \<and> \<not> is_datetime64_dtype c
         then \<exists>c'. to_datetime conv c = Inr c' \<and> map_of df name = Some c'
         else map_of df name = Some c"
        unfolding present by blast
      show ?thesis
      proof (cases "name \<in> set (takeWhile (has_column orders) date_cols)
                   \<and> \<not> is_datetime64_dtype c")
        case True
        with inst obtain c' where
          c': "to_datetime conv c = Inr c'" "map_of df name = Some c'"
          by (auto split: if_splits)
        from to_datetime_is_datetime [OF c'(1)] True have "c' \<noteq> c" by auto
        with c' True show ?thesis by auto
      next
        case False
        with inst show ?thesis by (auto split: if_splits)
      qed
    qed
    from msgs check_date_cols_names [OF chk] check_date_cols_other [OF chk] cols
    show ?thesis by blast
  qed
  have part2: "\<exists>df. calculate_delivery_time conv orders = Inr (df, [ColumnNotFound col])"
    if conv_ok: "\<forall>name\<in>set (takeWhile (has_column orders) date_cols). \<forall>c.
            map_of orders name = Some c \<longrightarrow> \<not> is_datetime64_dtype c \<longrightarrow>
            (\<exists>c'. to_datetime conv c = Inr c')"
  proof -
    from check_date_cols_returns [OF dist conv_ok [unfolded present]] col
    obtain df where "check_date_cols conv orders date_cols = Inr (df, Some col)"
      by auto
    then show ?thesis by (auto simp: calculate_delivery_time_def)
  qed
  have part3: "calculate_delivery_time conv orders = Inr (orders, [ColumnNotFound col])"
    if dt: "\<forall>name\<in>set date_cols. \<forall>c. map_of orders name = Some c \<longrightarrow> is_datetime64_dtype c"
    using check_date_cols_unchanged [OF dt, of conv] col
    by (simp add: calculate_delivery_time_def)
  have part4: "calculate_delivery_time conv orders
              = Inr (orders, [ColumnNotFound ''order_purchase_timestamp''])"
    if "\<not> has_column orders ''order_purchase_timestamp''"
    using that by (simp add: calculate_delivery_time_def date_cols_def has_column_def)
  from col part1 part2 part3 part4 show ?thesis
    unfolding absent by blast
qed

text \<open>The witness: the purchase timestamps are text and the delivered date is not a
  column. The calculator reports the delivered date and returns the frame with the same
  two columns, the order ids unchanged.\<close>

theorem missing_date_column_witness:
  "(\<exists>col\<in>set date_cols. \<not> has_column
       [(''order_id'', ObjectCol [Some (Str ''a1'')]),
        (''order_purchase_timestamp'', ObjectCol [Some (Str ''2022-01-01 00:00:00'')])] col)
   \<and> calculate_delivery_time sample_conv
       [(''order_id'', ObjectCol [Some (Str ''a1'')]),
        (''order_purchase_timestamp'', ObjectCol [Some (Str ''2022-01-01 00:00:00'')])]
     = Inr ([(''order_id'', ObjectCol [Some (Str ''a1'')]),
             (''order_purchase_timestamp'', DatetimeCol [Some 1640995200000000000])],
            [ColumnNotFound ''order_delivered_customer_date''])
   \<and> map fst [(''order_id'', ObjectCol [Some (Str ''a1'')]),
             (''order_purchase_timestamp'', DatetimeCol [Some 1640995200000000000])]
     = map fst [(''order_id'', ObjectCol [Some (Str ''a1'')]),
        (''order_purchase_timestamp'', ObjectCol [Some (Str ''2022-01-01 00:00:00'')])]"
proof -
  let ?orders = "[(''order_id'', ObjectCol [Some (Str ''a1'')]),
        (''order_purchase_timestamp'', ObjectCol [Some (Str ''2022-01-01 00:00:00'')])]"
  have "\<not> has_column ?orders ''order_delivered_customer_date''"
    by (simp add: has_column_def)
  then have lacks: "\<exists>col\<in>set date_cols. \<not> has_column ?orders col"
    by (auto simp: date_cols_def)
  have run: "calculate_delivery_time sample_conv ?orders
     = Inr ([(''order_id'', ObjectCol [Some (Str ''a1'')]),
             (''order_purchase_timestamp'', DatetimeCol [Some 1640995200000000000])],
            [ColumnNotFound ''order_delivered_customer_date''])"
    by code_simp
  from missing_date_column [OF lacks, of sample_conv] run lacks show ?thesis by simp
qed

text \<open>The claim as written fails on the same input: the frame that comes back is not
  the input, its purchase timestamps have been converted.\<close>

theorem returned_table_changed_counterexample:
  "\<not> has_column
       [(''order_id'', ObjectCol [Some (Str ''a1'')]),
        (''order_purchase_timestamp'', ObjectCol [Some (Str ''2022-01-01 00:00:00'')])]
       ''order_delivered_customer_date''
   \<and> calculate_delivery_time sample_conv
       [(''order_id'', ObjectCol [Some (Str ''a1'')]),
        (''order_purchase_timestamp'', ObjectCol [Some (Str ''2022-01-01 00:00:00'')])]
     = Inr ([(''order_id'', ObjectCol [Some (Str ''a1'')]),
             (''order_purchase_timestamp'', DatetimeCol [Some 1640995200000000000])],
            [ColumnNotFound ''order_delivered_customer_date''])
   \<and> [(''order_id'', ObjectCol [Some (Str ''a1'')]),
       (''order_purchase_timestamp'', DatetimeCol [Some 1640995200000000000])]
     \<noteq> [(''order_id'', ObjectCol [Some (Str ''a1'')]),
        (''order_purchase_timestamp'', ObjectCol [Some (Str ''2022-01-01 00:00:00'')])]"
proof -
  have "calculate_delivery_time sample_conv
       [(''order_id'', ObjectCol [Some (Str ''a1'')]),
        (''order_purchase_timestamp'', ObjectCol [Some (Str ''2022-01-01 00:00:00'')])]
     = Inr ([(''order_id'', ObjectCol [Some (Str ''a1'')]),
             (''order_purchase_timestamp'', DatetimeCol [Some 1640995200000000000])],
            [ColumnNotFound ''order_delivered_customer_date''])"
    by code_simp
  then show ?thesis by (simp add: has_column_def)
qed

section \<open>Merging\<close>

lemma length_those: "those xs = Some ys \<Longrightarrow> length ys = length xs"
  by (induction xs arbitrary: ys) (auto split: option.splits)

lemma len_take_opt: "col_len (take_opt idx c) = length idx"
  by (cases c) (auto simp: col_len_def length_those split: option.splits)

lemma merge_lengths:
  assumes "pd_merge h left right key = Inr m"
  shows "\<exists>lk rk. map_of left key = Some lk \<and> map_of right key = Some rk
     \<and> nrows m = length (join_indexer h (col_cells lk) (col_cells rk))
     \<and> (\<forall>(name, c) \<in> set m. col_len c = nrows m)"
proof -
  from assms obtain lk rk where lk: "map_of left key = Some lk"
    and rk: "map_of right key = Some rk"
    by (auto simp: pd_merge_def split: option.splits)
  define idx where "idx = join_indexer h (col_cells lk) (col_cells rk)"
  define lcols where "lcols = map (\<lambda>(name, c).
        (if name \<noteq> key \<and> name \<in> set (map fst right) then name @ ''_x'' else name,
         take_rows (map fst idx) c)) left"
  define rcols where "rcols = map (\<lambda>(name, c).
        (if name \<in> set (map fst left) then name @ ''_y'' else name,
         take_opt (map snd idx) c)) (filter (\<lambda>(name, c). name \<noteq> key) right)"
  from assms lk rk have m: "m = lcols @ rcols"
    by (simp add: pd_merge_def Let_def idx_def lcols_def rcols_def split: if_splits)
  have all: "\<forall>(name, c) \<in> set m. col_len c = length idx"
    by (auto simp: m lcols_def rcols_def len_take_rows len_take_opt)
  from lk have "left \<noteq> []" by auto
  then have "lcols \<noteq> []" by (simp add: lcols_def)
  then obtain name c rest where "m = (name, c) # rest"
    by (cases lcols) (auto simp: m)
  with all have "nrows m = length idx" by simp
  with all lk rk show ?thesis by (simp add: idx_def)
qed

lemma merge_key_len:
  assumes "pd_merge h left right key = Inr m" and "map_of m k = Some c"
  shows "length (col_cells c) = nrows m"
  using merge_lengths [OF assms(1)] map_of_SomeD [OF assms(2)]
  by (auto simp: col_len_def)

lemma sum_list_ge_length:
  "\<forall>x\<in>set xs. 0 < f x \<Longrightarrow> length xs \<le> sum_list (map f xs)"
proof (induction xs)
  case Nil
  then show ?case by simp
next
  case (Cons x xs)
  then have "0 < f x" and "length xs \<le> sum_list (map f xs)" by simp_all
  then show ?case by simp
qed

lemma sum_list_eq_length:
  "\<forall>x\<in>set xs. f x = (1::nat) \<Longrightarrow> sum_list (map f xs) = length xs"
  by (induction xs) auto

lemma join_row_left_ge: "join_row LeftJoin rk k i \<noteq> []"
  by (cases "matches rk k") (simp_all add: join_row_def Let_def)

lemma matches_unique:
  assumes "distinct (map key_of rk)"
  shows "length (matches rk k) \<le> 1"
proof -
  have d: "distinct (matches rk k)" by (simp add: matches_def)
  have "j1 = j2" if "j1 \<in> set (matches rk k)" "j2 \<in> set (matches rk k)" for j1 j2
  proof -
    from that have "j1 < length rk" "j2 < length rk"
      and "key_of (rk ! j1) = key_of (rk ! j2)"
      by (auto simp: matches_def)
    moreover from assms
    have "\<forall>i<length rk. \<forall>j<length rk. i \<noteq> j \<longrightarrow> key_of (rk ! i) \<noteq> key_of (rk ! j)"
      by (simp add: distinct_conv_nth)
    ultimately show ?thesis by blast
  qed
  then have "card (set (matches rk k)) \<le> 1"
    by (metis card_le_Suc0_iff_eq List.finite_set One_nat_def)
  with d show ?thesis by (simp add: distinct_card)
qed

lemma join_row_left_unique:
  "distinct (map key_of rk) \<Longrightarrow> length (join_row LeftJoin rk k i) = 1"
  using matches_unique [of rk k]
  by (cases "matches rk k") (auto simp: join_row_def Let_def)

lemma left_join_ge: "length lk \<le> length (join_indexer LeftJoin lk rk)"
proof -
  have "length [0..<length lk]
      \<le> sum_list (map (\<lambda>i. length (join_row LeftJoin rk (lk ! i) i)) [0..<length lk])"
    by (rule sum_list_ge_length) (simp add: join_row_left_ge)
  then show ?thesis
    by (simp add: join_indexer_def length_concat comp_def)
qed

lemma left_join_unique:
  assumes "distinct (map key_of rk)"
  shows "length (join_indexer LeftJoin lk rk) = length lk"
proof -
  have "sum_list (map (\<lambda>i. length (join_row LeftJoin rk (lk ! i) i)) [0..<length lk])
      = length [0..<length lk]"
    by (rule sum_list_eq_length) (simp add: join_row_left_unique [OF assms])
  then show ?thesis
    by (simp add: join_indexer_def length_concat comp_def)
qed

lemma sum_list_gt_length:
  "\<forall>x\<in>set xs. 0 < f x \<Longrightarrow> \<exists>x\<in>set xs. 2 \<le> f x \<Longrightarrow> length xs < sum_list (map f xs)"
proof (induction xs)
  case Nil
  then show ?case by simp
next
  case (Cons x xs)
  then have pos: "0 < f x" and all: "\<forall>x\<in>set xs. 0 < f x" by simp_all
  show ?case
  proof (cases "2 \<le> f x")
    case True
    with sum_list_ge_length [OF all] show ?thesis by simp
  next
    case False
    with Cons.prems(2) have "\<exists>x\<in>set xs. 2 \<le> f x" by auto
    with Cons.IH all pos show ?thesis by simp
  qed
qed

lemma length_join_row:
  "length (join_row LeftJoin rk k i) = max 1 (length (matches rk k))"
  "length (join_row InnerJoin rk k i) = length (matches rk k)"
  by (cases "matches rk k"; simp add: join_row_def Let_def)+

lemma sum_over_indices: "map (\<lambda>i. g (xs ! i)) [0..<length xs] = map g xs"
proof -
  have "map (\<lambda>i. g (xs ! i)) [0..<length xs] = map g (map (nth xs) [0..<length xs])"
    by simp
  then show ?thesis by (simp only: map_nth)
qed

lemma length_join_indexer:
  "length (join_indexer LeftJoin lk rk) = sum_list (map (\<lambda>k. max 1 (length (matches rk k))) lk)"
  "length (join_indexer InnerJoin lk rk) = sum_list (map (\<lambda>k. length (matches rk k)) lk)"
  using sum_over_indices [of "\<lambda>k. max 1 (length (matches rk k))" lk]
    sum_over_indices [of "\<lambda>k. length (matches rk k)" lk]
  by (simp_all add: join_indexer_def length_concat comp_def length_join_row)

lemma inner_merge_rows:
  assumes "pd_merge InnerJoin left right key = Inr m"
  shows "nrows m = inner_join_count left right key"
proof -
  from merge_lengths [OF assms] obtain lk rk where
    lk: "map_of left key = Some lk" and rk: "map_of right key = Some rk" and
    n: "nrows m = length (join_indexer InnerJoin (col_cells lk) (col_cells rk))"
    by blast
  from rk have "row_matches right key = (\<lambda>k. length (matches (col_cells rk) k))"
    by (simp add: row_matches_def fun_eq_iff)
  with lk n show ?thesis
    by (simp add: inner_join_count_def length_join_indexer)
qed

lemma left_merge_rows:
  assumes "pd_merge h0 l0 r0 k0 = Inr left" and "pd_merge LeftJoin left right key = Inr m"
  shows "nrows m = left_join_count left (Some right) key"
    and "nrows left \<le> nrows m"
    and "unique_key (Some right) key \<Longrightarrow> nrows m = nrows left"
    and "repeated_match left (Some right) key \<Longrightarrow> nrows left < nrows m"
proof -
  from merge_lengths [OF assms(2)] obtain lk rk where
    lk: "map_of left key = Some lk" and rk: "map_of right key = Some rk" and
    n: "nrows m = length (join_indexer LeftJoin (col_cells lk) (col_cells rk))"
    by blast
  from merge_key_len [OF assms(1) lk] have len: "length (col_cells lk) = nrows left" .
  from lk rk n show count: "nrows m = left_join_count left (Some right) key"
    by (simp add: row_matches_def length_join_indexer)
  from n len left_join_ge [of "col_cells lk" "col_cells rk"]
  show "nrows left \<le> nrows m" by simp
  {
    assume "unique_key (Some right) key"
    with rk have "distinct (map key_of (col_cells rk))" by simp
    from left_join_unique [OF this, of "col_cells lk"] n len
    show "nrows m = nrows left" by simp
  }
  {
    assume "repeated_match left (Some right) key"
    with lk rk obtain k where "k \<in> set (col_cells lk)"
      and "2 \<le> length (matches (col_cells rk) k)"
      by (auto simp: row_matches_def list_ex_iff)
    then have "k \<in> set (col_cells lk)"
      and "2 \<le> max 1 (length (matches (col_cells rk) k))"
      by simp_all
    then have "\<exists>k\<in>set (col_cells lk). 2 \<le> max 1 (length (matches (col_cells rk) k))"
      by blast
    then have "length (col_cells lk)
        < sum_list (map (\<lambda>k. max 1 (length (matches (col_cells rk) k))) (col_cells lk))"
      by (intro sum_list_gt_length) auto
    with n len show "nrows left < nrows m"
      by (simp add: length_join_indexer)
  }
qed

text \<open>
  Claim C3, as the code has it. When the merger returns, the inner join of orders and
  order items on the order identifier returns too, with one row for every pair of an
  order and an item of the same order identifier. Each left join then keeps every row
  and repeats it once for every row of the supplied table with the same identifier (a
  row without a partner stays once): the row counts are exactly these sums. So the
  merged frame never has fewer rows than the inner join; it has exactly as many when no
  product identifier occurs twice in the products table and no customer identifier
  occurs twice in the customers table (for the tables that are supplied), in particular
  when neither is supplied; and it has more rows as soon as one row has two or more
  partners in a supplied table.
\<close>

theorem merge_row_count:
  assumes "merge_order_data orders order_items products customers = Inr merged"
  shows "\<exists>joined with_products.
       pd_merge InnerJoin orders order_items ''order_id'' = Inr joined
     \<and> (case products of None \<Rightarrow> Inr joined
         | Some p \<Rightarrow> pd_merge LeftJoin joined p ''product_id'') = Inr with_products
     \<and> nrows joined = inner_join_count orders order_items ''order_id''
     \<and> nrows with_products = left_join_count joined products ''product_id''
     \<and> nrows merged = left_join_count with_products customers ''customer_id''
     \<and> nrows joined \<le> nrows merged
     \<and> (unique_key products ''product_id'' \<and> unique_key customers ''customer_id''
          \<longrightarrow> nrows merged = nrows joined)
     \<and> (repeated_match joined products ''product_id''
          \<or> repeated_match with_products customers ''customer_id''
          \<longrightarrow> nrows joined < nrows merged)"
proof -
  from assms obtain joined where
    j: "pd_merge InnerJoin orders order_items ''order_id'' = Inr joined"
    by (auto simp: merge_order_data_def split: sum.splits)
  from assms j obtain m2 where
    m2: "(case products of None \<Rightarrow> Inr joined
          | Some p \<Rightarrow> pd_merge LeftJoin joined p ''product_id'') = Inr m2"
    and m3: "(case customers of None \<Rightarrow> Inr m2
          | Some c \<Rightarrow> pd_merge LeftJoin m2 c ''customer_id'') = Inr merged"
    by (auto simp: merge_order_data_def split: sum.splits)
  have step1: "nrows m2 = left_join_count joined products ''product_id''
      \<and> nrows joined \<le> nrows m2
      \<and> (unique_key products ''product_id'' \<longrightarrow> nrows m2 = nrows joined)
      \<and> (repeated_match joined products ''product_id'' \<longrightarrow> nrows joined < nrows m2)
      \<and> (\<exists>h l r k. pd_merge h l r k = Inr m2)"
  proof (cases products)
    case None
    with m2 j show ?thesis by auto
  next
    case (Some p)
    with m2 have run: "pd_merge LeftJoin joined p ''product_id'' = Inr m2" by simp
    from left_merge_rows [OF j run] Some run show ?thesis by blast
  qed
  then obtain h l r k where prev: "pd_merge h l r k = Inr m2" by blast
  have step2: "nrows merged = left_join_count m2 customers ''customer_id''
      \<and> nrows m2 \<le> nrows merged
      \<and> (unique_key customers ''customer_id'' \<longrightarrow> nrows merged = nrows m2)
      \<and> (repeated_match m2 customers ''customer_id'' \<longrightarrow> nrows m2 < nrows merged)"
  proof (cases customers)
    case None
    with m3 show ?thesis by simp
  next
    case (Some c)
    with m3 have run: "pd_merge LeftJoin m2 c ''customer_id'' = Inr merged" by simp
    from left_merge_rows [OF prev run] Some show ?thesis by blast
  qed
  from step1 step2 have "nrows joined \<le> nrows merged"
    and "unique_key products ''product_id'' \<and> unique_key customers ''customer_id''
          \<longrightarrow> nrows merged = nrows joined"
    and "repeated_match joined products ''product_id''
          \<or> repeated_match m2 customers ''customer_id'' \<longrightarrow> nrows joined < nrows merged"
    by auto
  with j m2 inner_merge_rows [OF j] step1 step2 show ?thesis by blast
qed

text \<open>The witness: three orders, three items of two of them, two products and two
  customers, each listed once. The inner join has three rows (the order without items is
  dropped) and so has the merged frame; the product and the customer that are not listed
  leave missing cells, and the integer column \<open>weight\<close> becomes a float column.
  A second, smaller input has a product that is listed twice: its one joined row has two
  partners, and the merged frame has more rows than the inner join.\<close>

theorem merge_row_count_witness:
  "merge_order_data
     [(''order_id'', ObjectCol [Some (Str ''o1''), Some (Str ''o2''), Some (Str ''o3'')]),
      (''customer_id'', ObjectCol [Some (Str ''c1''), Some (Str ''c7''), Some (Str ''c3'')])]
     [(''order_id'', ObjectCol [Some (Str ''o1''), Some (Str ''o1''), Some (Str ''o2'')]),
      (''product_id'', ObjectCol [Some (Str ''p1''), Some (Str ''p2''), Some (Str ''p9'')]),
      (''price'', Float64Col [Some 10, Some 20, Some 30])]
     (Some [(''product_id'', ObjectCol [Some (Str ''p1''), Some (Str ''p2'')]),
            (''weight'', Int64Col [100, 200])])
     (Some [(''customer_id'', ObjectCol [Some (Str ''c1''), Some (Str ''c2'')]),
            (''city'', ObjectCol [Some (Str ''rio''), Some (Str ''recife'')])])
   = Inr [(''order_id'', ObjectCol [Some (Str ''o1''), Some (Str ''o1''), Some (Str ''o2'')]),
          (''customer_id'', ObjectCol [Some (Str ''c1''), Some (Str ''c1''), Some (Str ''c7'')]),
          (''product_id'', ObjectCol [Some (Str ''p1''), Some (Str ''p2''), Some (Str ''p9'')]),
          (''price'', Float64Col [Some 10, Some 20, Some 30]),
          (''weight'', Float64Col [Some 100, Some 200, None]),
          (''city'', ObjectCol [Some (Str ''rio''), Some (Str ''rio''), None])]
   \<and> pd_merge InnerJoin
     [(''order_id'', ObjectCol [Some (Str ''o1''), Some (Str ''o2''), Some (Str ''o3'')]),
      (''customer_id'', ObjectCol [Some (Str ''c1''), Some (Str ''c7''), Some (Str ''c3'')])]
     [(''order_id'', ObjectCol [Some (Str ''o1''), Some (Str ''o1''), Some (Str ''o2'')]),
      (''product_id'', ObjectCol [Some (Str ''p1''), Some (Str ''p2''), Some (Str ''p9'')]),
      (''price'', Float64Col [Some 10, Some 20, Some 30])] ''order_id''
   = Inr [(''order_id'', ObjectCol [Some (Str ''o1''), Some (Str ''o1''), Some (Str ''o2'')]),
          (''customer_id'', ObjectCol [Some (Str ''c1''), Some (Str ''c1''), Some (Str ''c7'')]),
          (''product_id'', ObjectCol [Some (Str ''p1''), Some (Str ''p2''), Some (Str ''p9'')]),
          (''price'', Float64Col [Some 10, Some 20, Some 30])]
   \<and> nrows [(''order_id'', ObjectCol [Some (Str ''o1''), Some (Str ''o1''), Some (Str ''o2'')]),
          (''customer_id'', ObjectCol [Some (Str ''c1''), Some (Str ''c1''), Some (Str ''c7'')]),
          (''product_id'', ObjectCol [Some (Str ''p1''), Some (Str ''p2''), Some (Str ''p9'')]),
          (''price'', Float64Col [Some 10, Some 20, Some 30]),
          (''weight'', Float64Col [Some 100, Some 200, None]),
          (''city'', ObjectCol [Some (Str ''rio''), Some (Str ''rio''), None])]
     = nrows [(''order_id'', ObjectCol [Some (Str ''o1''), Some (Str ''o1''), Some (Str ''o2'')]),
          (''customer_id'', ObjectCol [Some (Str ''c1''), Some (Str ''c1''), Some (Str ''c7'')]),
          (''product_id'', ObjectCol [Some (Str ''p1''), Some (Str ''p2''), Some (Str ''p9'')]),
          (''price'', Float64Col [Some 10, Some 20, Some 30])]
   \<and> repeated_match
       [(''order_id'', ObjectCol [Some (Str ''o1'')]),
        (''product_id'', ObjectCol [Some (Str ''p1'')])]
       (Some [(''product_id'', ObjectCol [Some (Str ''p1''), Some (Str ''p1'')])]) ''product_id''
   \<and> nrows [(''order_id'', ObjectCol [Some (Str ''o1'')]),
            (''product_id'', ObjectCol [Some (Str ''p1'')])]
     < nrows [(''order_id'', ObjectCol [Some (Str ''o1''), Some (Str ''o1'')]),
              (''product_id'', ObjectCol [Some (Str ''p1''), Some (Str ''p1'')])]"
proof -
  let ?o2 = "[(''order_id'', ObjectCol [Some (Str ''o1'')])]"
  let ?i2 = "[(''order_id'', ObjectCol [Some (Str ''o1'')]),
        (''product_id'', ObjectCol [Some (Str ''p1'')])]"
  let ?p2 = "[(''product_id'', ObjectCol [Some (Str ''p1''), Some (Str ''p1'')])]"
  let ?m2 = "[(''order_id'', ObjectCol [Some (Str ''o1''), Some (Str ''o1'')]),
              (''product_id'', ObjectCol [Some (Str ''p1''), Some (Str ''p1'')])]"
  have run2: "merge_order_data ?o2 ?i2 (Some ?p2) None = Inr ?m2" by code_simp
  have inner2: "pd_merge InnerJoin ?o2 ?i2 ''order_id'' = Inr ?i2" by code_simp
  have rep: "repeated_match ?i2 (Some ?p2) ''product_id''" by code_simp
  from merge_row_count [OF run2] inner2 rep have more: "nrows ?i2 < nrows ?m2" by auto
  let ?orders = "[(''order_id'', ObjectCol [Some (Str ''o1''), Some (Str ''o2''), Some (Str ''o3'')]),
      (''customer_id'', ObjectCol [Some (Str ''c1''), Some (Str ''c7''), Some (Str ''c3'')])]"
  let ?items = "[(''order_id'', ObjectCol [Some (Str ''o1''), Some (Str ''o1''), Some (Str ''o2'')]),
      (''product_id'', ObjectCol [Some (Str ''p1''), Some (Str ''p2''), Some (Str ''p9'')]),
      (''price'', Float64Col [Some 10, Some 20, Some 30])]"
  let ?products = "[(''product_id'', ObjectCol [Some (Str ''p1''), Some (Str ''p2'')]),
            (''weight'', Int64Col [100, 200])]"
  let ?customers = "[(''customer_id'', ObjectCol [Some (Str ''c1''), Some (Str ''c2'')]),
            (''city'', ObjectCol [Some (Str ''rio''), Some (Str ''recife'')])]"
  let ?merged = "[(''order_id'', ObjectCol [Some (Str ''o1''), Some (Str ''o1''), Some (Str ''o2'')]),
          (''customer_id'', ObjectCol [Some (Str ''c1''), Some (Str ''c1''), Some (Str ''c7'')]),
          (''product_id'', ObjectCol [Some (Str ''p1''), Some (Str ''p2''), Some (Str ''p9'')]),
          (''price'', Float64Col [Some 10, Some 20, Some 30]),
          (''weight'', Float64Col [Some 100, Some 200, None]),
          (''city'', ObjectCol [Some (Str ''rio''), Some (Str ''rio''), None])]"
  have run: "merge_order_data ?orders ?items (Some ?products) (Some ?customers) = Inr ?merged"
    by code_simp
  have inner: "pd_merge InnerJoin ?orders ?items ''order_id''
     = Inr [(''order_id'', ObjectCol [Some (Str ''o1''), Some (Str ''o1''), Some (Str ''o2'')]),
          (''customer_id'', ObjectCol [Some (Str ''c1''), Some (Str ''c1''), Some (Str ''c7'')]),
          (''product_id'', ObjectCol [Some (Str ''p1''), Some (Str ''p2''), Some (Str ''p9'')]),
          (''price'', Float64Col [Some 10, Some 20, Some 30])]"
    by code_simp
  have uniq: "unique_key (Some ?products) ''product_id''"
    "unique_key (Some ?customers) ''customer_id''"
    by simp_all
  from merge_row_count [OF run] inner uniq have "nrows ?merged
     = nrows [(''order_id'', ObjectCol [Some (Str ''o1''), Some (Str ''o1''), Some (Str ''o2'')]),
          (''customer_id'', ObjectCol [Some (Str ''c1''), Some (Str ''c1''), Some (Str ''c7'')]),
          (''product_id'', ObjectCol [Some (Str ''p1''), Some (Str ''p2''), Some (Str ''p9'')]),
          (''price'', Float64Col [Some 10, Some 20, Some 30])]"
    by auto
  with run inner rep more show ?thesis by blast
qed

text \<open>The claim as written fails when the products table lists a product twice: one
  order with one item joins to one row, and the left join with the products makes two
  rows of it.\<close>

theorem left_join_adds_rows_counterexample:
  "pd_merge InnerJoin
     [(''order_id'', ObjectCol [Some (Str ''o1'')]),
      (''customer_id'', ObjectCol [Some (Str ''c1'')])]
     [(''order_id'', ObjectCol [Some (Str ''o1'')]),
      (''product_id'', ObjectCol [Some (Str ''p1'')])] ''order_id''
   = Inr [(''order_id'', ObjectCol [Some (Str ''o1'')]),
          (''customer_id'', ObjectCol [Some (Str ''c1'')]),
          (''product_id'', ObjectCol [Some (Str ''p1'')])]
   \<and> merge_order_data
     [(''order_id'', ObjectCol [Some (Str ''o1'')]),
      (''customer_id'', ObjectCol [Some (Str ''c1'')])]
     [(''order_id'', ObjectCol [Some (Str ''o1'')]),
      (''product_id'', ObjectCol [Some (Str ''p1'')])]
     (Some [(''product_id'', ObjectCol [Some (Str ''p1''), Some (Str ''p1'')]),
            (''category'', ObjectCol [Some (Str ''toys''), Some (Str ''games'')])])
     None
   = Inr [(''order_id'', ObjectCol [Some (Str ''o1''), Some (Str ''o1'')]),
          (''customer_id'', ObjectCol [Some (Str ''c1''), Some (Str ''c1'')]),
          (''product_id'', ObjectCol [Some (Str ''p1''), Some (Str ''p1'')]),
          (''category'', ObjectCol [Some (Str ''toys''), Some (Str ''games'')])]
   \<and> nrows [(''order_id'', ObjectCol [Some (Str ''o1'')]),
          (''customer_id'', ObjectCol [Some (Str ''c1'')]),
          (''product_id'', ObjectCol [Some (Str ''p1'')])] = 1
   \<and> nrows [(''order_id'', ObjectCol [Some (Str ''o1''), Some (Str ''o1'')]),
          (''customer_id'', ObjectCol [Some (Str ''c1''), Some (Str ''c1'')]),
          (''product_id'', ObjectCol [Some (Str ''p1''), Some (Str ''p1'')]),
          (''category'', ObjectCol [Some (Str ''toys''), Some (Str ''games'')])] = 2"
proof -
  have "pd_merge InnerJoin
     [(''order_id'', ObjectCol [Some (Str ''o1'')]),
      (''customer_id'', ObjectCol [Some (Str ''c1'')])]
     [(''order_id'', ObjectCol [Some (Str ''o1'')]),
      (''product_id'', ObjectCol [Some (Str ''p1'')])] ''order_id''
   = Inr [(''order_id'', ObjectCol [Some (Str ''o1'')]),
          (''customer_id'', ObjectCol [Some (Str ''c1'')]),
          (''product_id'', ObjectCol [Some (Str ''p1'')])]"
    by code_simp
  moreover have "merge_order_data
     [(''order_id'', ObjectCol [Some (Str ''o1'')]),
      (''customer_id'', ObjectCol [Some (Str ''c1'')])]
     [(''order_id'', ObjectCol [Some (Str ''o1'')]),
      (''product_id'', ObjectCol [Some (Str ''p1'')])]
     (Some [(''product_id'', ObjectCol [Some (Str ''p1''), Some (Str ''p1'')]),
            (''category'', ObjectCol [Some (Str ''toys''), Some (Str ''games'')])])
     None
   = Inr [(''order_id'', ObjectCol [Some (Str ''o1''), Some (Str ''o1'')]),
          (''customer_id'', ObjectCol [Some (Str ''c1''), Some (Str ''c1'')]),
          (''product_id'', ObjectCol [Some (Str ''p1''), Some (Str ''p1'')]),
          (''category'', ObjectCol [Some (Str ''toys''), Some (Str ''games'')])]"
    by code_simp
  ultimately show ?thesis by (simp add: col_len_def)
qed

section \<open>Loading\<close>

lemma map_result_first_error:
  "k < length xs \<Longrightarrow> f (xs ! k) = Inl e \<Longrightarrow> \<forall>j<k. \<exists>y. f (xs ! j) = Inr y \<Longrightarrow>
   map_result f xs = Inl e"
proof (induction xs arbitrary: k)
  case Nil
  then show ?case by simp
next
  case (Cons x xs)
  show ?case
  proof (cases k)
    case 0
    with Cons.prems show ?thesis by simp
  next
    case (Suc k')
    with Cons.prems(3) obtain y where y: "f x = Inr y" by fastforce
    have "\<forall>j<k'. \<exists>y. f (xs ! j) = Inr y"
      using Cons.prems(3) Suc by fastforce
    with Cons.IH [of k'] Cons.prems(1,2) Suc have "map_result f xs = Inl e" by simp
    with y show ?thesis by simp
  qed
qed

lemma map_result_all:
  "map_result f xs = Inr ys \<Longrightarrow> x \<in> set xs \<Longrightarrow> \<exists>y. f x = Inr y"
  by (induction xs arbitrary: ys) (auto split: sum.splits)

text \<open>The five reads of the dictionary literal are the reads of the required files, in
  their order.\<close>

lemma read_all_files:
  "read_all fs base_path =
     (case map_result (\<lambda>f. read_csv fs (base_path @ f)) required_files of
        Inl e \<Rightarrow> Inl e
      | Inr ts \<Rightarrow> Inr (zip [''orders'', ''order_items'', ''products'', ''customers'',
                            ''sellers''] ts))"
  by (simp add: read_all_def required_files_def and_then_def split: sum.splits)

text \<open>
  Claim C8, as the code has it. Let one of the five required files be absent from the
  base directory. Then the loader returns no mapping of tables, partial or full. When
  every required file listed before the absent one can be read, the loader raises
  nothing: it reports the absent file and returns the "no result" value. When a file
  listed before the absent one is there but cannot be read, and the files before that
  one can, the loader ends with the exception of that file: only FileNotFoundError is
  caught.
\<close>

theorem load_with_absent_file:
  assumes "k < length required_files"
    and "fs (base_path @ required_files ! k) = None"
  shows "(\<forall>datasets msgs. load_datasets fs base_path \<noteq> Inr (Some datasets, msgs))
     \<and> ((\<forall>j<k. \<exists>t. fs (base_path @ required_files ! j) = Some (CsvFile t)) \<longrightarrow>
          load_datasets fs base_path
            = Inr (None, [LoadFailed (base_path @ required_files ! k)]))
     \<and> (\<forall>j e. j < k \<and> fs (base_path @ required_files ! j) = Some (Unreadable e)
              \<and> (\<forall>i<j. \<exists>t. fs (base_path @ required_files ! i) = Some (CsvFile t)) \<longrightarrow>
          load_datasets fs base_path = Inl (ReadError e))"
proof (intro conjI allI impI)
  fix datasets msgs
  show "load_datasets fs base_path \<noteq> Inr (Some datasets, msgs)"
  proof
    assume "load_datasets fs base_path = Inr (Some datasets, msgs)"
    then obtain ts where
      "map_result (\<lambda>f. read_csv fs (base_path @ f)) required_files = Inr ts"
      by (auto simp: load_datasets_def read_all_files split: sum.splits pd_error.splits)
    from map_result_all [OF this, of "required_files ! k"] assms
    show False by (simp add: read_csv_def)
  qed
next
  assume before: "\<forall>j<k. \<exists>t. fs (base_path @ required_files ! j) = Some (CsvFile t)"
  have "read_csv fs (base_path @ required_files ! k)
      = Inl (FileNotFoundError (base_path @ required_files ! k))"
    using assms(2) by (simp add: read_csv_def)
  moreover have "\<forall>j<k. \<exists>y. read_csv fs (base_path @ required_files ! j) = Inr y"
    using before by (auto simp: read_csv_def)
  ultimately have "map_result (\<lambda>f. read_csv fs (base_path @ f)) required_files
      = Inl (FileNotFoundError (base_path @ required_files ! k))"
    using assms(1) by (intro map_result_first_error) auto
  then show "load_datasets fs base_path
      = Inr (None, [LoadFailed (base_path @ required_files ! k)])"
    by (simp add: load_datasets_def read_all_files)
next
  fix j e
  assume bad: "j < k \<and> fs (base_path @ required_files ! j) = Some (Unreadable e)
      \<and> (\<forall>i<j. \<exists>t. fs (base_path @ required_files ! i) = Some (CsvFile t))"
  then have "read_csv fs (base_path @ required_files ! j) = Inl (ReadError e)"
    by (simp add: read_csv_def)
  moreover have "\<forall>i<j. \<exists>y. read_csv fs (base_path @ required_files ! i) = Inr y"
    using bad by (auto simp: read_csv_def)
  moreover have "j < length required_files"
    using bad assms(1) by simp
  ultimately have "map_result (\<lambda>f. read_csv fs (base_path @ f)) required_files
      = Inl (ReadError e)"
    by (intro map_result_first_error) auto
  then show "load_datasets fs base_path = Inl (ReadError e)"
    by (simp add: load_datasets_def read_all_files)
qed

text \<open>The witness: orders and order items are there, the products file (the third of
  the list) is not, and the loader returns the "no result" value; with an order items
  file that cannot be parsed instead, the loader ends with ParserError.\<close>

theorem load_with_absent_file_witness:
  "2 < length required_files
   \<and> (Map.empty(''raw/olist_orders_dataset.csv'' \<mapsto> CsvFile [(''order_id'', ObjectCol [])],
               ''raw/olist_order_items_dataset.csv'' \<mapsto> CsvFile [(''order_id'', ObjectCol [])]))
       (''raw/'' @ required_files ! 2) = None
   \<and> load_datasets
       (Map.empty(''raw/olist_orders_dataset.csv'' \<mapsto> CsvFile [(''order_id'', ObjectCol [])],
                  ''raw/olist_order_items_dataset.csv'' \<mapsto> CsvFile [(''order_id'', ObjectCol [])]))
       ''raw/''
     = Inr (None, [LoadFailed ''raw/olist_products_dataset.csv''])
   \<and> (Map.empty(''raw/olist_orders_dataset.csv'' \<mapsto> CsvFile [(''order_id'', ObjectCol [])],
               ''raw/olist_order_items_dataset.csv'' \<mapsto> Unreadable ParserError))
       (''raw/'' @ required_files ! 2) = None
   \<and> load_datasets
       (Map.empty(''raw/olist_orders_dataset.csv'' \<mapsto> CsvFile [(''order_id'', ObjectCol [])],
                  ''raw/olist_order_items_dataset.csv'' \<mapsto> Unreadable ParserError))
       ''raw/''
     = Inl (ReadError ParserError)"
proof -
  let ?fs = "Map.empty(''raw/olist_orders_dataset.csv'' \<mapsto> CsvFile [(''order_id'', ObjectCol [])],
               ''raw/olist_order_items_dataset.csv'' \<mapsto> CsvFile [(''order_id'', ObjectCol [])])"
  let ?bad = "Map.empty(''raw/olist_orders_dataset.csv'' \<mapsto> CsvFile [(''order_id'', ObjectCol [])],
               ''raw/olist_order_items_dataset.csv'' \<mapsto> Unreadable ParserError)"
  have k: "2 < length required_files" by (simp add: required_files_def)
  have absent: "?fs (''raw/'' @ required_files ! 2) = None"
    by (simp add: required_files_def)
  have before: "\<forall>j<2. \<exists>t. ?fs (''raw/'' @ required_files ! j) = Some (CsvFile t)"
  proof (intro allI impI)
    fix j :: nat
    assume "j < 2"
    then have "j = 0 \<or> j = 1" by auto
    then show "\<exists>t. ?fs (''raw/'' @ required_files ! j) = Some (CsvFile t)"
      by (auto simp: required_files_def)
  qed
  from load_with_absent_file [where k = 2 and fs = "?fs" and base_path = "''raw/''",
      OF k absent] before
  have ok: "load_datasets ?fs ''raw/''
      = Inr (None, [LoadFailed (''raw/'' @ required_files ! 2)])"
    by blast
  have absent': "?bad (''raw/'' @ required_files ! 2) = None"
    by (simp add: required_files_def)
  have unreadable: "(1::nat) < 2 \<and> ?bad (''raw/'' @ required_files ! 1) = Some (Unreadable ParserError)
      \<and> (\<forall>i<1. \<exists>t. ?bad (''raw/'' @ required_files ! i) = Some (CsvFile t))"
    by (simp add: required_files_def)
  from load_with_absent_file [where k = 2 and fs = "?bad" and base_path = "''raw/''",
      OF k absent'] unreadable
  have raised: "load_datasets ?bad ''raw/'' = Inl (ReadError ParserError)"
    by blast
  from k absent ok absent' raised show ?thesis by (simp add: required_files_def)
qed

text \<open>The claim as written fails when a file listed before the absent one is there but
  cannot be read: an empty orders file makes \<open>read_csv\<close> raise EmptyDataError, which the
  loader does not catch, although the sellers file (and others) are absent.\<close>

theorem load_unreadable_before_absent_counterexample:
  "(Map.empty(''raw/olist_orders_dataset.csv'' \<mapsto> Unreadable EmptyDataError))
       ''raw/olist_sellers_dataset.csv'' = None
   \<and> load_datasets (Map.empty(''raw/olist_orders_dataset.csv'' \<mapsto> Unreadable EmptyDataError))
       ''raw/''
     = Inl (ReadError EmptyDataError)"
  by (simp add: load_datasets_def read_all_def read_csv_def and_then_def)

section \<open>Calendar features\<close>

lemma names_setitems:
  "distinct (map fst ncs) \<Longrightarrow>
   map fst (setitems df ncs)
     = map fst df @ filter (\<lambda>n. n \<notin> set (map fst df)) (map fst ncs)"
proof (induction ncs arbitrary: df)
  case Nil
  then show ?case by simp
next
  case (Cons nc ncs)
  obtain name c where nc: "nc = (name, c)" by (cases nc)
  from Cons.prems nc have d: "distinct (map fst ncs)" and fresh: "name \<notin> set (map fst ncs)"
    by simp_all
  show ?case
  proof (cases "name \<in> set (map fst df)")
    case True
    with Cons.IH [OF d, of "setitem df name c"] nc show ?thesis
      by (simp add: names_setitem)
  next
    case False
    have "filter (\<lambda>n. n \<notin> set (map fst df @ [name])) (map fst ncs)
        = filter (\<lambda>n. n \<notin> set (map fst df)) (map fst ncs)"
      using fresh by (intro filter_cong) auto
    with Cons.IH [OF d, of "setitem df name c"] nc False show ?thesis
      by (simp add: names_setitem)
  qed
qed

lemma map_of_setitems_other:
  "k \<notin> set (map fst ncs) \<Longrightarrow> map_of (setitems df ncs) k = map_of df k"
  by (induction ncs arbitrary: df) (auto simp: map_of_setitem)

lemma map_of_setitems:
  "distinct (map fst ncs) \<Longrightarrow> (k, c) \<in> set ncs \<Longrightarrow> map_of (setitems df ncs) k = Some c"
proof (induction ncs arbitrary: df)
  case Nil
  then show ?case by simp
next
  case (Cons nc ncs)
  obtain name c0 where nc: "nc = (name, c0)" by (cases nc)
  show ?case
  proof (cases "(k, c) = nc")
    case True
    with Cons.prems nc have "k \<notin> set (map fst ncs)" by auto
    from map_of_setitems_other [OF this] True nc show ?thesis
      by (simp add: map_of_setitem)
  next
    case False
    with Cons.prems Cons.IH nc show ?thesis by auto
  qed
qed

lemma add_feature_found:
  "map_of df d = Some (DatetimeCol xs) \<Longrightarrow> suffix \<noteq> [] \<Longrightarrow>
   add_feature df d suffix f = setitem df (d @ suffix) (f xs)
   \<and> map_of (setitem df (d @ suffix) (f xs)) d = Some (DatetimeCol xs)"
  by (simp add: add_feature_def map_of_setitem)

lemma extract_as_setitems:
  assumes "map_of df d = Some (DatetimeCol xs)"
  shows "extract_date_features df d =
     (setitems df
        [(d @ ''_year'', dt_field dt_year xs), (d @ ''_month'', dt_field dt_month xs),
         (d @ ''_day'', dt_field dt_day xs), (d @ ''_dayofweek'', dt_field dt_dayofweek xs),
         (d @ ''_quarter'', dt_field dt_quarter xs), (d @ ''_is_weekend'', is_weekend xs)],
      [])"
proof -
  note step = add_feature_found [THEN conjunct1] add_feature_found [THEN conjunct2]
  let ?d1 = "setitem df (d @ ''_year'') (dt_field dt_year xs)"
  let ?d2 = "setitem ?d1 (d @ ''_month'') (dt_field dt_month xs)"
  let ?d3 = "setitem ?d2 (d @ ''_day'') (dt_field dt_day xs)"
  let ?d4 = "setitem ?d3 (d @ ''_dayofweek'') (dt_field dt_dayofweek xs)"
  let ?d5 = "setitem ?d4 (d @ ''_quarter'') (dt_field dt_quarter xs)"
  have 1: "add_feature df d ''_year'' (dt_field dt_year) = ?d1"
    and m1: "map_of ?d1 d = Some (DatetimeCol xs)"
    using step [OF assms, of "''_year''"] by simp_all
  have 2: "add_feature ?d1 d ''_month'' (dt_field dt_month) = ?d2"
    and m2: "map_of ?d2 d = Some (DatetimeCol xs)"
    using step [OF m1, of "''_month''"] by simp_all
  have 3: "add_feature ?d2 d ''_day'' (dt_field dt_day) = ?d3"
    and m3: "map_of ?d3 d = Some (DatetimeCol xs)"
    using step [OF m2, of "''_day''"] by simp_all
  have 4: "add_feature ?d3 d ''_dayofweek'' (dt_field dt_dayofweek) = ?d4"
    and m4: "map_of ?d4 d = Some (DatetimeCol xs)"
    using step [OF m3, of "''_dayofweek''"] by simp_all
  have 5: "add_feature ?d4 d ''_quarter'' (dt_field dt_quarter) = ?d5"
    and m5: "map_of ?d5 d = Some (DatetimeCol xs)"
    using step [OF m4, of "''_quarter''"] by simp_all
  have 6: "add_feature ?d5 d ''_is_weekend'' is_weekend
      = setitem ?d5 (d @ ''_is_weekend'') (is_weekend xs)"
    using step [OF m5, of "''_is_weekend''"] by simp
  have "has_column df d" and "is_datetime64_dtype (DatetimeCol xs)"
    using assms by (simp_all add: has_column_def is_datetime64_dtype_def)
  then show ?thesis
    using assms by (simp add: extract_date_features_def Let_def 1 2 3 4 5 6)
qed

lemma those_all: "those xs = Some ns \<Longrightarrow> xs = map Some ns"
  by (induction xs arbitrary: ns) (auto split: option.splits)

lemma dt_field_cell:
  assumes "i < length xs"
  shows "i < length (col_cells (dt_field f xs))"
    and "cell_int (col_cells (dt_field f xs) ! i) = map_option f (xs ! i)"
proof -
  show "i < length (col_cells (dt_field f xs))"
    using assms by (auto simp: dt_field_def dest: those_all split: option.splits)
  show "cell_int (col_cells (dt_field f xs) ! i) = map_option f (xs ! i)"
  proof (cases "those xs")
    case None
    with assms show ?thesis
      by (cases "xs ! i") (simp_all add: dt_field_def)
  next
    case (Some ns)
    from those_all [OF this] assms Some show ?thesis
      by (simp add: dt_field_def)
  qed
qed

lemma is_weekend_cell:
  assumes "i < length xs"
  shows "i < length (col_cells (is_weekend xs))"
    and "col_cells (is_weekend xs) ! i
      = Some (Num (if map_option dt_dayofweek (xs ! i) \<in> {Some 5, Some 6} then 1 else 0))"
proof -
  show "i < length (col_cells (is_weekend xs))"
    using assms dt_field_cell(1) [OF assms, of dt_dayofweek]
    by (simp add: is_weekend_def astype_int_def isin_def)
  show "col_cells (is_weekend xs) ! i
      = Some (Num (if map_option dt_dayofweek (xs ! i) \<in> {Some 5, Some 6} then 1 else 0))"
  proof (cases "those xs")
    case None
    with assms show ?thesis
      by (cases "xs ! i") (auto simp: is_weekend_def astype_int_def isin_def dt_field_def)
  next
    case (Some ns)
    from those_all [OF this] assms Some show ?thesis
      by (auto simp: is_weekend_def astype_int_def isin_def dt_field_def)
  qed
qed

text \<open>The calendar of the model at a few known days: the epoch (a Thursday), the day
  before it, the leap day of 2000 and the first day of 2022 (a Saturday).\<close>

lemma calendar_examples:
  "civil_from_days 0 = (1970, 1, 1)" "civil_from_days (- 1) = (1969, 12, 31)"
  "civil_from_days 11016 = (2000, 2, 29)" "civil_from_days 18993 = (2022, 1, 1)"
  "days_from_civil 1970 1 1 = 0" "days_from_civil 2000 2 29 = 11016"
  "days_from_civil 2022 1 1 = 18993"
  "dt_dayofweek 0 = 3" "dt_dayofweek 1640995200000000000 = 5"
  by code_simp+

lemma dayofweek_range: "0 \<le> dt_dayofweek ns \<and> dt_dayofweek ns \<le> 6"
  by (simp add: dt_dayofweek_def)

lemma quarter_of_month: "dt_quarter ns = (dt_month ns - 1) div 3 + 1"
  by (simp add: dt_quarter_def)

text \<open>
  Claim C7, as the code has it. For a frame whose named date column exists and has the
  datetime dtype, feature extraction prints nothing and sets the six columns year,
  month, day, day-of-week, quarter and is_weekend (named after the date column): those
  of the six names that the frame does not have yet are appended in this order, those it
  already has are overwritten where they stand, so exactly six columns are added when
  the frame has none of them. Every other column is unchanged. In each row the five
  calendar columns hold the field of that row's timestamp (and are missing where the
  timestamp is), and is_weekend is 1 if the day-of-week is 5 (Saturday) or 6 (Sunday),
  else 0, also where the timestamp is missing.
\<close>

theorem extract_date_features_columns:
  assumes "map_of df d = Some (DatetimeCol xs)"
  shows "\<exists>out. extract_date_features df d = (out, [])
     \<and> map fst out = map fst df @ filter (\<lambda>n. n \<notin> set (map fst df)) (feature_names d)
     \<and> (set (feature_names d) \<inter> set (map fst df) = {} \<longrightarrow> length out = length df + 6)
     \<and> (\<forall>name. name \<notin> set (feature_names d) \<longrightarrow> map_of out name = map_of df name)
     \<and> (\<forall>i<length xs.
           cell_int (cell out (d @ ''_year'') i) = map_option dt_year (xs ! i)
         \<and> cell_int (cell out (d @ ''_month'') i) = map_option dt_month (xs ! i)
         \<and> cell_int (cell out (d @ ''_day'') i) = map_option dt_day (xs ! i)
         \<and> cell_int (cell out (d @ ''_dayofweek'') i) = map_option dt_dayofweek (xs ! i)
         \<and> cell_int (cell out (d @ ''_quarter'') i) = map_option dt_quarter (xs ! i)
         \<and> cell out (d @ ''_is_weekend'') i
             = Some (Num (if cell_int (cell out (d @ ''_dayofweek'') i) \<in> {Some 5, Some 6}
                          then 1 else 0)))"
proof -
  define ncs where "ncs =
        [(d @ ''_year'', dt_field dt_year xs), (d @ ''_month'', dt_field dt_month xs),
         (d @ ''_day'', dt_field dt_day xs), (d @ ''_dayofweek'', dt_field dt_dayofweek xs),
         (d @ ''_quarter'', dt_field dt_quarter xs), (d @ ''_is_weekend'', is_weekend xs)]"
  define out where "out = setitems df ncs"
  have names: "map fst ncs = feature_names d"
    by (simp add: ncs_def feature_names_def)
  have dist: "distinct (map fst ncs)"
    by (simp add: ncs_def)
  have run: "extract_date_features df d = (out, [])"
    using extract_as_setitems [OF assms] by (simp add: out_def ncs_def)
  have cols: "map fst out = map fst df @ filter (\<lambda>n. n \<notin> set (map fst df)) (feature_names d)"
    using names_setitems [OF dist, of df] by (simp add: out_def names)
  have six: "length out = length df + 6" if "set (feature_names d) \<inter> set (map fst df) = {}"
  proof -
    from that have "filter (\<lambda>n. n \<notin> set (map fst df)) (feature_names d) = feature_names d"
      by (intro filter_True) auto
    with cols have "length (map fst out) = length (map fst df) + length (feature_names d)"
      by simp
    then show ?thesis by (simp add: feature_names_def)
  qed
  have others: "map_of out name = map_of df name" if "name \<notin> set (feature_names d)" for name
    using that map_of_setitems_other [of name ncs df] by (simp add: out_def names)
  have col: "map_of out k = Some c" if "(k, c) \<in> set ncs" for k c
    unfolding out_def by (rule map_of_setitems [OF dist that])
  have y: "map_of out (d @ ''_year'') = Some (dt_field dt_year xs)"
    and m: "map_of out (d @ ''_month'') = Some (dt_field dt_month xs)"
    and dd: "map_of out (d @ ''_day'') = Some (dt_field dt_day xs)"
    and w: "map_of out (d @ ''_dayofweek'') = Some (dt_field dt_dayofweek xs)"
    and q: "map_of out (d @ ''_quarter'') = Some (dt_field dt_quarter xs)"
    and e: "map_of out (d @ ''_is_weekend'') = Some (is_weekend xs)"
    by (rule col, simp add: ncs_def)+
  have rows: "cell_int (cell out (d @ ''_year'') i) = map_option dt_year (xs ! i)
         \<and> cell_int (cell out (d @ ''_month'') i) = map_option dt_month (xs ! i)
         \<and> cell_int (cell out (d @ ''_day'') i) = map_option dt_day (xs ! i)
         \<and> cell_int (cell out (d @ ''_dayofweek'') i) = map_option dt_dayofweek (xs ! i)
         \<and> cell_int (cell out (d @ ''_quarter'') i) = map_option dt_quarter (xs ! i)
         \<and> cell out (d @ ''_is_weekend'') i
             = Some (Num (if cell_int (cell out (d @ ''_dayofweek'') i) \<in> {Some 5, Some 6}
                          then 1 else 0))"
    if i: "i < length xs" for i
    using dt_field_cell(2) [OF i] is_weekend_cell(2) [OF i]
    by (simp add: cell_def y m dd w q e)
  from run cols six others rows show ?thesis by blast
qed

text \<open>The witness: a Saturday, a missing timestamp and a Monday. None of the six names
  is a column yet, so six columns are added.\<close>

theorem extract_date_features_columns_witness:
  "map_of [(''order_id'', ObjectCol [Some (Str ''a1''), Some (Str ''a2''), Some (Str ''a3'')]),
           (''order_purchase_timestamp'',
              DatetimeCol [Some 1640995200000000000, None, Some 1641168000000000000])]
     ''order_purchase_timestamp''
     = Some (DatetimeCol [Some 1640995200000000000, None, Some 1641168000000000000])
   \<and> extract_date_features
       [(''order_id'', ObjectCol [Some (Str ''a1''), Some (Str ''a2''), Some (Str ''a3'')]),
        (''order_purchase_timestamp'',
           DatetimeCol [Some 1640995200000000000, None, Some 1641168000000000000])]
       ''order_purchase_timestamp''
     = ([(''order_id'', ObjectCol [Some (Str ''a1''), Some (Str ''a2''), Some (Str ''a3'')]),
         (''order_purchase_timestamp'',
            DatetimeCol [Some 1640995200000000000, None, Some 1641168000000000000]),
         (''order_purchase_timestamp_year'', Float64Col [Some 2022, None, Some 2022]),
         (''order_purchase_timestamp_month'', Float64Col [Some 1, None, Some 1]),
         (''order_purchase_timestamp_day'', Float64Col [Some 1, None, Some 3]),
         (''order_purchase_timestamp_dayofweek'', Float64Col [Some 5, None, Some 0]),
         (''order_purchase_timestamp_quarter'', Float64Col [Some 1, None, Some 1]),
         (''order_purchase_timestamp_is_weekend'', Int64Col [1, 0, 0])], [])
   \<and> map fst
        [(''order_id'', ObjectCol [Some (Str ''a1''), Some (Str ''a2''), Some (Str ''a3'')]),
         (''order_purchase_timestamp'',
            DatetimeCol [Some 1640995200000000000, None, Some 1641168000000000000]),
         (''order_purchase_timestamp_year'', Float64Col [Some 2022, None, Some 2022]),
         (''order_purchase_timestamp_month'', Float64Col [Some 1, None, Some 1]),
         (''order_purchase_timestamp_day'', Float64Col [Some 1, None, Some 3]),
         (''order_purchase_timestamp_dayofweek'', Float64Col [Some 5, None, Some 0]),
         (''order_purchase_timestamp_quarter'', Float64Col [Some 1, None, Some 1]),
         (''order_purchase_timestamp_is_weekend'', Int64Col [1, 0, 0])]
     = [''order_id'', ''order_purchase_timestamp''] @ feature_names ''order_purchase_timestamp''"
proof -
  let ?df = "[(''order_id'', ObjectCol [Some (Str ''a1''), Some (Str ''a2''), Some (Str ''a3'')]),
           (''order_purchase_timestamp'',
              DatetimeCol [Some 1640995200000000000, None, Some 1641168000000000000])]"
  have col: "map_of ?df ''order_purchase_timestamp''
     = Some (DatetimeCol [Some 1640995200000000000, None, Some 1641168000000000000])"
    by simp
  have run: "extract_date_features ?df ''order_purchase_timestamp''
     = ([(''order_id'', ObjectCol [Some (Str ''a1''), Some (Str ''a2''), Some (Str ''a3'')]),
         (''order_purchase_timestamp'',
            DatetimeCol [Some 1640995200000000000, None, Some 1641168000000000000]),
         (''order_purchase_timestamp_year'', Float64Col [Some 2022, None, Some 2022]),
         (''order_purchase_timestamp_month'', Float64Col [Some 1, None, Some 1]),
         (''order_purchase_timestamp_day'', Float64Col [Some 1, None, Some 3]),
         (''order_purchase_timestamp_dayofweek'', Float64Col [Some 5, None, Some 0]),
         (''order_purchase_timestamp_quarter'', Float64Col [Some 1, None, Some 1]),
         (''order_purchase_timestamp_is_weekend'', Int64Col [1, 0, 0])], [])"
    by code_simp
  from extract_date_features_columns [OF col] col run show ?thesis
    by (simp add: feature_names_def)
qed

text \<open>The claim as written fails for a frame that already has one of the six columns:
  the extractor overwrites it, and only five columns are new.\<close>

theorem five_columns_added_counterexample:
  "map_of [(''d'', DatetimeCol [Some 1640995200000000000]),
           (''d_year'', ObjectCol [Some (Str ''x'')])] ''d''
     = Some (DatetimeCol [Some 1640995200000000000])
   \<and> extract_date_features
       [(''d'', DatetimeCol [Some 1640995200000000000]),
        (''d_year'', ObjectCol [Some (Str ''x'')])] ''d''
     = ([(''d'', DatetimeCol [Some 1640995200000000000]),
         (''d_year'', Int64Col [2022]), (''d_month'', Int64Col [1]),
         (''d_day'', Int64Col [1]), (''d_dayofweek'', Int64Col [5]),
         (''d_quarter'', Int64Col [1]), (''d_is_weekend'', Int64Col [1])], [])
   \<and> length [(''d'', DatetimeCol [Some 1640995200000000000]),
         (''d_year'', Int64Col [2022]), (''d_month'', Int64Col [1]),
         (''d_day'', Int64Col [1]), (''d_dayofweek'', Int64Col [5]),
         (''d_quarter'', Int64Col [1]), (''d_is_weekend'', Int64Col [1])]
     = length [(''d'', DatetimeCol [Some 1640995200000000000]),
               (''d_year'', ObjectCol [Some (Str ''x'')])] + 5"
proof -
  have "extract_date_features
       [(''d'', DatetimeCol [Some 1640995200000000000]),
        (''d_year'', ObjectCol [Some (Str ''x'')])] ''d''
     = ([(''d'', DatetimeCol [Some 1640995200000000000]),
         (''d_year'', Int64Col [2022]), (''d_month'', Int64Col [1]),
         (''d_day'', Int64Col [1]), (''d_dayofweek'', Int64Col [5]),
         (''d_quarter'', Int64Col [1]), (''d_is_weekend'', Int64Col [1])], [])"
    by code_simp
  then show ?thesis by simp
qed

end
